theory Spec2Isabelle
  imports Complex_Main "HOL-Library.Word"
begin

unbundle bit_operations_syntax

section \<open>Machine types and errors\<close>

type_synonym u8 = "8 word"
type_synonym u32 = "32 word"
type_synonym u64 = "64 word"

text \<open>
  Every \<^verbatim>\<open>throw\<close> of the modelled functions is one constructor.  The C++ code throws
  \<^verbatim>\<open>std::invalid_argument\<close> or \<^verbatim>\<open>std::runtime_error\<close> with a message; the
  constructor names the throw site:
  \<^item> \<open>ShortHeader\<close>: "Insufficient data for FEC header" (FECFrameHeader::deserialize);
  \<^item> \<open>ShortPayload\<close>: "Insufficient data for FEC frame payload" (FECFrame::deserialize);
  \<^item> \<open>InvalidRate\<close>: "k and m must be greater than 0" (FECEncoder constructor);
  \<^item> \<open>ExpectedKBlocks\<close>: "Expected k data blocks" (FECEncoder::encode);
  \<^item> \<open>BlockSizeMismatch\<close>: "Block size mismatch" (FECEncoder::encode);
  \<^item> \<open>InsufficientBlocks\<close>: "Not enough blocks to decode" (FECDecoder::decode);
  \<^item> \<open>BlockCountMismatch\<close>: "Block count mismatch" (FECDecoder::decode);
  \<^item> \<open>NoPathsAvailable\<close>: "No paths available" (PathScheduler selection).
\<close>

datatype error =
    ShortHeader
  | ShortPayload
  | InvalidRate
  | ExpectedKBlocks
  | BlockSizeMismatch
  | InsufficientBlocks
  | BlockCountMismatch
  | NoPathsAvailable

section \<open>Frame codec (fec_frame.hpp, fec_frame.cpp)\<close>

text \<open>
  \<^verbatim>\<open>enum class FrameType : uint8_t\<close>.  \<^verbatim>\<open>deserialize\<close> converts the type byte with a
  \<^verbatim>\<open>static_cast\<close>, so a frame header can hold any byte; the field is a byte and the
  enumerators are constants.
\<close>

definition STREAM_FRAME :: u8 where "STREAM_FRAME = 0x08"
definition FEC_SOURCE_FRAME :: u8 where "FEC_SOURCE_FRAME = 0xF0"
definition FEC_REPAIR_FRAME :: u8 where "FEC_REPAIR_FRAME = 0xF1"

record FECFrameHeader =
  frame_type :: u8
  group_id :: u64
  block_index :: u32
  total_blocks :: u32
  payload_length :: u32

record FECFrame =
  header :: FECFrameHeader
  payload :: "u8 list"

definition HEADER_SIZE :: nat where "HEADER_SIZE = 25"

definition is_source_frame :: "FECFrame \<Rightarrow> bool" where
  "is_source_frame f = (frame_type (header f) = FEC_SOURCE_FRAME)"

definition is_repair_frame :: "FECFrame \<Rightarrow> bool" where
  "is_repair_frame f = (frame_type (header f) = FEC_REPAIR_FRAME)"

text \<open>\<^verbatim>\<open>static_cast<uint8_t>((x >> (i * 8)) & 0xFF)\<close> for a 64-bit and a 32-bit field.\<close>

definition be_byte64 :: "u64 \<Rightarrow> nat \<Rightarrow> u8" where
  "be_byte64 w i = ucast (drop_bit (i * 8) w AND 0xFF)"

definition be_byte32 :: "u32 \<Rightarrow> nat \<Rightarrow> u8" where
  "be_byte32 w i = ucast (drop_bit (i * 8) w AND 0xFF)"

text \<open>
  \<^verbatim>\<open>FECFrameHeader::serialize\<close>: a vector of \<open>HEADER_SIZE\<close> zero bytes, of which the
  first 21 are overwritten in the order type, group id (\<open>i = 7 .. 0\<close>), block index,
  total blocks, payload length (\<open>i = 3 .. 0\<close> each).  The last four bytes are never
  written and keep their initial zero.
\<close>

definition FECFrameHeader_serialize :: "FECFrameHeader \<Rightarrow> u8 list" where
  "FECFrameHeader_serialize h =
     [frame_type h]
     @ map (be_byte64 (group_id h)) (rev [0..<8])
     @ map (be_byte32 (block_index h)) (rev [0..<4])
     @ map (be_byte32 (total_blocks h)) (rev [0..<4])
     @ map (be_byte32 (payload_length h)) (rev [0..<4])
     @ replicate (HEADER_SIZE - 21) 0"

text \<open>\<^verbatim>\<open>x = (x << 8) | data[offset++]\<close> on a 64-bit and on a 32-bit accumulator.\<close>

definition shift_in64 :: "u64 \<Rightarrow> u8 \<Rightarrow> u64" where
  "shift_in64 acc b = push_bit 8 acc OR ucast b"

definition shift_in32 :: "u32 \<Rightarrow> u8 \<Rightarrow> u32" where
  "shift_in32 acc b = push_bit 8 acc OR ucast b"

text \<open>
  \<^verbatim>\<open>FECFrameHeader::deserialize(data, len)\<close>; the pointer and its length are one list.
  The type byte is stored as it is read.
\<close>

definition FECFrameHeader_deserialize :: "u8 list \<Rightarrow> error + FECFrameHeader" where
  "FECFrameHeader_deserialize bs =
     (if length bs < HEADER_SIZE then Inl ShortHeader
      else Inr \<lparr> frame_type = bs ! 0,
                 group_id = foldl shift_in64 0 (take 8 (drop 1 bs)),
                 block_index = foldl shift_in32 0 (take 4 (drop 9 bs)),
                 total_blocks = foldl shift_in32 0 (take 4 (drop 13 bs)),
                 payload_length = foldl shift_in32 0 (take 4 (drop 17 bs)) \<rparr>)"

definition FECFrame_serialize :: "FECFrame \<Rightarrow> u8 list" where
  "FECFrame_serialize f = FECFrameHeader_serialize (header f) @ payload f"

text \<open>
  \<^verbatim>\<open>FECFrame::deserialize\<close>.  The bound \<^verbatim>\<open>HEADER_SIZE + payload_length\<close> is computed in
  \<^verbatim>\<open>size_t\<close> (64 bits), where it cannot wrap.
\<close>

definition FECFrame_deserialize :: "u8 list \<Rightarrow> error + FECFrame" where
  "FECFrame_deserialize bs =
     (case FECFrameHeader_deserialize bs of
        Inl e \<Rightarrow> Inl e
      | Inr h \<Rightarrow>
          if length bs < HEADER_SIZE + unat (payload_length h) then Inl ShortPayload
          else Inr \<lparr> header = h,
                     payload = take (unat (payload_length h)) (drop HEADER_SIZE bs) \<rparr>)"

section \<open>Double arithmetic\<close>

text \<open>
  A \<^verbatim>\<open>double\<close> is modelled by the real number it denotes.  An arithmetic operation of
  the code on doubles is the exact operation on the reals followed by \<open>dbl\<close>, the rounding
  to the nearest double: 53 significant bits, exponents from \<open>-1022\<close> upwards with gradual
  underflow below, ties to the even significand.  Every operation is rounded on its own
  (no fused multiply-add).  A decimal literal \<open>c\<close> of the code is \<open>dbl c\<close>.  Comparisons,
  \<^verbatim>\<open>std::max\<close>, \<^verbatim>\<open>std::min\<close>, negation, \<^verbatim>\<open>std::ceil\<close> and the conversion of a small
  integer to a double are exact.

  Infinities and NaN are not values of the model, and the exponent is not bounded above:
  a result beyond the largest double, which the code turns into an infinity, is outside
  the model.  The statements about doubles bound their inputs by \<open>10 ^ 100\<close>, which keeps
  every intermediate result far below that.
\<close>

text \<open>Rounding of a real to the nearest integer, ties to the even one.\<close>

definition rne :: "real \<Rightarrow> int" where
  "rne y = (let f = \<lfloor>y\<rfloor>; d = y - of_int f
            in if d < 1 / 2 then f else if 1 / 2 < d then f + 1
               else if even f then f else f + 1)"

text \<open>
  The exponent \<open>e\<close> of the binade \<open>2 ^ e \<le> \<bar>x\<bar> < 2 ^ (e + 1)\<close>, not below \<open>-1022\<close>; the
  spacing of the doubles there, \<open>2 ^ (e - 52)\<close>; and the rounding to the nearest of them.
\<close>

definition binade :: "real \<Rightarrow> int" where
  "binade x = (if x = 0 then - 1022 else max (- 1022) \<lfloor>log 2 \<bar>x\<bar>\<rfloor>)"

definition ulp :: "real \<Rightarrow> real" where
  "ulp x = 2 powr (of_int (binade x) - 52)"

definition dbl :: "real \<Rightarrow> real" where
  "dbl x = of_int (rne (x / ulp x)) * ulp x"

text \<open>
  \<^verbatim>\<open>std::exp\<close>.  The C++ standard does not say how the result is rounded, so the functions
  that call it take the exponential on doubles as a parameter.  \<open>double_exp\<close> is the
  correctly rounded one.
\<close>

definition double_exp :: "real \<Rightarrow> real" where
  "double_exp x = dbl (exp x)"


section \<open>Block codec (fec_encoder.hpp, fec_encoder.cpp)\<close>

record FECEncoder =
  enc_k :: u32
  enc_m :: u32
  enc_block_size :: u32

text \<open>The constructor of \<^verbatim>\<open>FECEncoder\<close> throws when \<open>k\<close> or \<open>m\<close> is zero.\<close>

definition FECEncoder_new :: "u32 \<Rightarrow> u32 \<Rightarrow> u32 \<Rightarrow> error + FECEncoder" where
  "FECEncoder_new k m bs =
     (if k = 0 \<or> m = 0 then Inl InvalidRate
      else Inr \<lparr> enc_k = k, enc_m = m, enc_block_size = bs \<rparr>)"

text \<open>
  One step of the innermost loop, \<^verbatim>\<open>value ^= data_blocks[d][i] * (p + d + 1)\<close>.
  \<open>p\<close> and \<open>d\<close> are \<^verbatim>\<open>uint32_t\<close>, so the factor and the product are computed in 32
  bits; the byte is widened before the multiplication and the result of the exclusive or
  is cut back to 8 bits by the assignment.
\<close>

definition xor_step :: "u8 list list \<Rightarrow> nat \<Rightarrow> nat \<Rightarrow> u8 \<Rightarrow> nat \<Rightarrow> u8" where
  "xor_step data_blocks p i v d =
     ucast ((ucast v :: u32) XOR (ucast (data_blocks ! d ! i) * (of_nat p + of_nat d + 1)))"

definition parity_byte :: "nat \<Rightarrow> u8 list list \<Rightarrow> nat \<Rightarrow> nat \<Rightarrow> u8" where
  "parity_byte k data_blocks p i = foldl (xor_step data_blocks p i) 0 [0..<k]"

text \<open>
  \<^verbatim>\<open>FECEncoder::encode\<close>.  The two checks come first, so every read
  \<open>data_blocks ! d ! i\<close> below is in range.
\<close>

definition encode :: "FECEncoder \<Rightarrow> u8 list list \<Rightarrow> error + u8 list list" where
  "encode e data_blocks =
     (if length data_blocks \<noteq> unat (enc_k e) then Inl ExpectedKBlocks
      else if \<not> list_all (\<lambda>block. length block = unat (enc_block_size e)) data_blocks
        then Inl BlockSizeMismatch
      else Inr (map (\<lambda>p. map (parity_byte (unat (enc_k e)) data_blocks p)
                               [0..<unat (enc_block_size e)])
                    [0..<unat (enc_m e)]))"

record FECDecoder =
  dec_k :: u32
  dec_m :: u32
  dec_block_size :: u32

text \<open>The constructor of \<^verbatim>\<open>FECDecoder\<close> checks nothing.\<close>

definition FECDecoder_new :: "u32 \<Rightarrow> u32 \<Rightarrow> u32 \<Rightarrow> FECDecoder" where
  "FECDecoder_new k m bs = \<lparr> dec_k = k, dec_m = m, dec_block_size = bs \<rparr>"

text \<open>
  The first loop of \<^verbatim>\<open>FECDecoder::decode\<close>: it walks the received blocks with their
  ids while fewer than \<open>k\<close> blocks have been collected, and collects a block when its
  id is below \<open>k\<close>.  Blocks with an id of \<open>k\<close> or more are skipped.
\<close>

fun collect_sources :: "u32 \<Rightarrow> (u8 list \<times> u32) list \<Rightarrow> u8 list list \<Rightarrow> u8 list list" where
  "collect_sources k [] recovered = recovered"
| "collect_sources k ((block, bid) # rest) recovered =
     (if length recovered < unat k
      then collect_sources k rest (if bid < k then recovered @ [block] else recovered)
      else recovered)"

text \<open>
  \<^verbatim>\<open>FECDecoder::decode\<close>: the two checks, the loop above, and the second loop, which
  appends blocks of \<open>block_size\<close> zero bytes until there are \<open>k\<close> blocks.
\<close>

definition decode :: "FECDecoder \<Rightarrow> u8 list list \<Rightarrow> u32 list \<Rightarrow> error + u8 list list" where
  "decode d received_blocks block_ids =
     (if length received_blocks < unat (dec_k d) then Inl InsufficientBlocks
      else if length received_blocks \<noteq> length block_ids then Inl BlockCountMismatch
      else
        let recovered = collect_sources (dec_k d) (zip received_blocks block_ids) []
        in Inr (recovered
                @ replicate (unat (dec_k d) - length recovered)
                    (replicate (unat (dec_block_size d)) 0)))"

section \<open>Ordered maps\<close>

text \<open>
  A \<^verbatim>\<open>std::map\<close> that the code iterates over is a list of pairs in ascending order of
  the keys, each key once: a range-for visits the entries in that order.  \<open>map_insert\<close>
  is \<^verbatim>\<open>m[k] = v\<close>, \<open>map_of\<close> is \<^verbatim>\<open>m.find(k)\<close>.  A \<^verbatim>\<open>std::map\<close> that is only
  looked up by key is a function to \<open>option\<close>.
\<close>

fun map_insert :: "'k::linorder \<Rightarrow> 'v \<Rightarrow> ('k \<times> 'v) list \<Rightarrow> ('k \<times> 'v) list" where
  "map_insert k v [] = [(k, v)]"
| "map_insert k v ((k', v') # xs) =
     (if k < k' then (k, v) # (k', v') # xs
      else if k = k' then (k, v) # xs
      else (k', v') # map_insert k v xs)"

section \<open>Loss correlation matrix and redundancy controller (oco_controller.hpp, oco_controller.cpp)\<close>

text \<open>
  The arithmetic of the redundancy controller is double arithmetic, rounded operation by
  operation with \<open>dbl\<close>.
\<close>

record LinkMetrics =
  lm_path_id :: u32
  lm_rtt_ms :: real
  lm_loss_rate :: real
  lm_bandwidth_mbps :: real
  lm_jitter_ms :: real
  packets_sent :: u64
  packets_lost :: u64
  bytes_in_flight :: u64

text \<open>The default constructor \<^verbatim>\<open>LinkMetrics()\<close>.\<close>

definition LinkMetrics_default :: LinkMetrics where
  "LinkMetrics_default =
     \<lparr> lm_path_id = 0, lm_rtt_ms = 0, lm_loss_rate = 0, lm_bandwidth_mbps = 0,
       lm_jitter_ms = 0, packets_sent = 0, packets_lost = 0, bytes_in_flight = 0 \<rparr>"

type_synonym LossCorrelationMatrix = "u32 \<times> u32 \<Rightarrow> real option"

text \<open>\<^verbatim>\<open>LossCorrelationMatrix::update_correlation\<close>.\<close>

definition update_correlation ::
  "u32 \<Rightarrow> u32 \<Rightarrow> real \<Rightarrow> LossCorrelationMatrix \<Rightarrow> LossCorrelationMatrix" where
  "update_correlation path_i path_j rho cm =
     (let rho' = max (-1) (min 1 rho);
          key1 = (min path_i path_j, max path_i path_j)
      in cm(key1 \<mapsto> rho'))"

text \<open>\<^verbatim>\<open>LossCorrelationMatrix::get_correlation\<close>.\<close>

definition get_correlation :: "LossCorrelationMatrix \<Rightarrow> u32 \<Rightarrow> u32 \<Rightarrow> real" where
  "get_correlation cm path_i path_j =
     (if path_i = path_j then 1
      else case cm (min path_i path_j, max path_i path_j) of
             Some rho \<Rightarrow> rho
           | None \<Rightarrow> 0)"



record RedundancyDecision =
  rd_k :: u32
  rd_m :: u32
  redundancy_rate :: real
  source_path :: u32
  repair_path :: u32
  confidence :: real

text \<open>The default constructor \<^verbatim>\<open>RedundancyDecision()\<close>.\<close>

definition RedundancyDecision_default :: RedundancyDecision where
  "RedundancyDecision_default =
     \<lparr> rd_k = 4, rd_m = 2, redundancy_rate = 0.5, source_path = 0, repair_path = 1,
       confidence = 1 \<rparr>"

text \<open>
  The fields of \<^verbatim>\<open>OCORedundancyController\<close> that the modelled operations read or
  write.  The gradient accumulator and the decision history are left out: nothing
  appends to the history, and \<^verbatim>\<open>feedback_update\<close> returns at once while it is empty.
\<close>

record OCORedundancyController =
  link_metrics :: "(u32 \<times> LinkMetrics) list"
  correlation_matrix :: LossCorrelationMatrix
  alpha_loss :: real
  alpha_delay :: real
  alpha_overhead :: real
  min_redundancy_rate :: real
  max_redundancy_rate :: real
  learning_rate :: real

definition OCORedundancyController_new :: OCORedundancyController where
  "OCORedundancyController_new =
     \<lparr> link_metrics = [], correlation_matrix = Map.empty,
       alpha_loss = 0.5, alpha_delay = dbl 0.3, alpha_overhead = dbl 0.2,
       min_redundancy_rate = dbl 0.1, max_redundancy_rate = 1.0, learning_rate = dbl 0.05 \<rparr>"

definition update_link_metrics ::
  "LinkMetrics \<Rightarrow> OCORedundancyController \<Rightarrow> OCORedundancyController" where
  "update_link_metrics metrics oc =
     oc\<lparr> link_metrics := map_insert (lm_path_id metrics) metrics (link_metrics oc) \<rparr>"

definition update_loss_correlation ::
  "u32 \<Rightarrow> u32 \<Rightarrow> real \<Rightarrow> OCORedundancyController \<Rightarrow> OCORedundancyController" where
  "update_loss_correlation path_i path_j rho oc =
     oc\<lparr> correlation_matrix := update_correlation path_i path_j rho (correlation_matrix oc) \<rparr>"

definition set_redundancy_constraints ::
  "real \<Rightarrow> real \<Rightarrow> OCORedundancyController \<Rightarrow> OCORedundancyController" where
  "set_redundancy_constraints min_rate max_rate oc =
     oc\<lparr> min_redundancy_rate := max 0 min_rate, max_redundancy_rate := min 1 max_rate \<rparr>"









section \<open>Path scheduler (path_scheduler.hpp, path_scheduler.cpp)\<close>

record PathState =
  ps_path_id :: u32
  rtt_ms :: real
  loss_rate :: real
  bandwidth_mbps :: real
  bytes_sent :: u64
  bytes_acked :: u64
  jitter_ms :: real
  cwnd :: u64

text \<open>
  \<^verbatim>\<open>PathScheduler\<close>.  \<open>oco_attached\<close> says whether \<^verbatim>\<open>set_oco_controller\<close> has stored
  the shared pointer; the controller it points to is the master controller's, and the
  operations that reach through the pointer take and return that controller.
\<close>

record PathScheduler =
  paths :: "(u32 \<times> PathState) list"
  weights :: "(u32 \<times> real) list"
  oco_attached :: bool
  path_correlations :: "u32 \<times> u32 \<Rightarrow> real option"

definition PathScheduler_new :: PathScheduler where
  "PathScheduler_new =
     \<lparr> paths = [], weights = [], oco_attached = False, path_correlations = Map.empty \<rparr>"

text \<open>
  The members \<^verbatim>\<open>alpha_ = 0.1\<close>, \<^verbatim>\<open>beta_ = 0.5\<close>, \<^verbatim>\<open>gamma_ = 0.3\<close> and
  \<^verbatim>\<open>delta_ = 0.2\<close>.  The costs and the weights are double arithmetic, rounded operation
  by operation; the scores of the selection loops further down are compared as the real
  numbers they stand for.
\<close>

definition alpha :: real where "alpha = dbl 0.1"
definition beta :: real where "beta = 0.5"
definition gamma :: real where "gamma = dbl 0.3"
definition delta :: real where "delta = dbl 0.2"

text \<open>\<^verbatim>\<open>PathScheduler::compute_cost\<close>.\<close>

definition compute_cost :: "PathState \<Rightarrow> real" where
  "compute_cost state =
     (let rtt_normalized = dbl (rtt_ms state / 100.0);
          bw_normalized = dbl (100.0 / max 1.0 (bandwidth_mbps state));
          cost = dbl (dbl (dbl (beta * rtt_normalized) + dbl (gamma * loss_rate state))
                      + dbl (delta * bw_normalized))
      in max (dbl 0.001) cost)"

text \<open>An accumulation loop \<^verbatim>\<open>sum += x\<close> over a list, from \<open>0.0\<close>.\<close>

definition double_sum :: "real list \<Rightarrow> real" where
  "double_sum xs = foldl (\<lambda>acc x. dbl (acc + x)) 0 xs"

text \<open>
  \<^verbatim>\<open>PathScheduler::update_weights\<close>, with \<^verbatim>\<open>std::exp\<close> as the parameter \<open>ex\<close>: the costs of
  all paths and their total; for every weight whose path has a cost, the multiplicative
  step and the floor at \<open>0.001\<close>; then the division of every weight by the sum of the
  weights.  The floor comes before the division.
\<close>

definition update_weights :: "(real \<Rightarrow> real) \<Rightarrow> PathScheduler \<Rightarrow> PathScheduler" where
  "update_weights ex s =
     (if paths s = [] then s
      else
        let costs = map (\<lambda>(path_id, state). (path_id, compute_cost state)) (paths s);
            total_cost = double_sum (map snd costs);
            stepped =
              map (\<lambda>(path_id, weight).
                     case map_of costs path_id of
                       Some c \<Rightarrow>
                         let gradient = dbl (c / max (dbl 0.001) total_cost)
                         in (path_id,
                             max (dbl 0.001) (dbl (weight * ex (dbl (- alpha * gradient)))))
                     | None \<Rightarrow> (path_id, weight))
                  (weights s);
            total = double_sum (map snd stepped)
        in s\<lparr> weights := map (\<lambda>(path_id, w). (path_id, dbl (w / total))) stepped \<rparr>)"

text \<open>\<^verbatim>\<open>PathScheduler::update_path_state\<close>, with \<^verbatim>\<open>std::exp\<close> as the parameter \<open>ex\<close>.\<close>

definition update_path_state ::
  "(real \<Rightarrow> real) \<Rightarrow> PathState \<Rightarrow> PathScheduler \<Rightarrow> PathScheduler" where
  "update_path_state ex state s =
     (let s1 = s\<lparr> paths := map_insert (ps_path_id state) state (paths s) \<rparr>;
          s2 = (if map_of (weights s1) (ps_path_id state) = None
                then s1\<lparr> weights := map_insert (ps_path_id state)
                                       (dbl (1.0 / max 1.0 (real (length (paths s1)))))
                                       (weights s1) \<rparr>
                else s1)
      in update_weights ex s2)"


text \<open>
  The loop of \<^verbatim>\<open>PathScheduler::select_source_path\<close>, with the pair
  \<open>(best_score, best_path)\<close> as its state.
\<close>

fun source_loop :: "(u32 \<times> PathState) list \<Rightarrow> real \<times> u32 \<Rightarrow> real \<times> u32" where
  "source_loop [] acc = acc"
| "source_loop ((path_id, state) # rest) (best_score, best_path) =
     (let score = - 0.4 * rtt_ms state
                  - 0.5 * loss_rate state * 1000
                  + 0.1 * bandwidth_mbps state
      in if score > best_score
         then source_loop rest (score, path_id)
         else source_loop rest (best_score, best_path))"

text \<open>
  \<^verbatim>\<open>PathScheduler::select_source_path\<close>.  The packet size is not read.  The only
  failure is the empty path table.
\<close>

definition select_source_path :: "PathScheduler \<Rightarrow> error + u32" where
  "select_source_path s =
     (case paths s of
        [] \<Rightarrow> Inl NoPathsAvailable
      | (first, _) # _ \<Rightarrow> Inr (snd (source_loop (paths s) (- 1000000000, first))))"


text \<open>\<^verbatim>\<open>PathScheduler::get_path_correlation\<close>.\<close>

definition get_path_correlation :: "PathScheduler \<Rightarrow> u32 \<Rightarrow> u32 \<Rightarrow> real" where
  "get_path_correlation s path_i path_j =
     (if path_i = path_j then 1
      else case path_correlations s (min path_i path_j, max path_i path_j) of
             Some c \<Rightarrow> c
           | None \<Rightarrow> 0)"

text \<open>
  \<^verbatim>\<open>PathScheduler::update_path_correlation\<close>: the value is stored as it is given, and
  passed on to the attached controller.
\<close>

definition update_path_correlation ::
  "u32 \<Rightarrow> u32 \<Rightarrow> real \<Rightarrow> PathScheduler \<times> OCORedundancyController
     \<Rightarrow> PathScheduler \<times> OCORedundancyController" where
  "update_path_correlation path_i path_j correlation = (\<lambda>(s, oc).
     (let key = (min path_i path_j, max path_i path_j)
      in (s\<lparr> path_correlations := (path_correlations s)(key \<mapsto> correlation) \<rparr>,
          if oco_attached s then update_loss_correlation path_i path_j correlation oc else oc)))"

text \<open>
  The loop of \<^verbatim>\<open>PathScheduler::find_least_correlated_path\<close>, with the pair
  \<open>(min_correlation, best_path)\<close> as its state.
\<close>

fun sched_least_loop ::
  "PathScheduler \<Rightarrow> u32 \<Rightarrow> u32 list \<Rightarrow> real \<times> u32 \<Rightarrow> real \<times> u32" where
  "sched_least_loop s path_id [] acc = acc"
| "sched_least_loop s path_id (candidate_id # rest) (min_correlation, best_path) =
     (if candidate_id = path_id
      then sched_least_loop s path_id rest (min_correlation, best_path)
      else
        let corr = \<bar>get_path_correlation s path_id candidate_id\<bar>
        in if corr < min_correlation
           then sched_least_loop s path_id rest (corr, candidate_id)
           else sched_least_loop s path_id rest (min_correlation, best_path))"

definition sched_find_least_correlated_path :: "PathScheduler \<Rightarrow> u32 \<Rightarrow> u32" where
  "sched_find_least_correlated_path s path_id =
     (if length (paths s) \<le> 1 then path_id
      else snd (sched_least_loop s path_id (map fst (paths s)) (2, path_id)))"

text \<open>
  \<^verbatim>\<open>PathScheduler::select_repair_path\<close>.  The fallback takes the first path other than
  the source path; no selection reads \<open>is_path_available\<close>.
\<close>

definition select_repair_path :: "PathScheduler \<Rightarrow> u32 \<Rightarrow> error + u32" where
  "select_repair_path s source_path_id =
     (case paths s of
        [] \<Rightarrow> Inl NoPathsAvailable
      | [(only, _)] \<Rightarrow> Inr only
      | _ \<Rightarrow>
        let repair = sched_find_least_correlated_path s source_path_id
        in if repair = source_path_id
           then (case filter (\<lambda>path_id. path_id \<noteq> source_path_id) (map fst (paths s)) of
                   [] \<Rightarrow> Inr repair
                 | other # _ \<Rightarrow> Inr other)
           else Inr repair)"

text \<open>\<^verbatim>\<open>PathScheduler::set_oco_controller\<close>.\<close>

definition set_oco_controller :: "PathScheduler \<Rightarrow> PathScheduler" where
  "set_oco_controller s = s\<lparr> oco_attached := True \<rparr>"

section \<open>The redundancy rule in the words of the specification\<close>





section \<open>The weight update: what it assumes and what it keeps\<close>

text \<open>
  The unit roundoff of a double: half the distance between 1 and the next double.
\<close>

definition eps :: real where
  "eps = 1 / 2 ^ 53"




text \<open>
  The body of the first loop of \<open>update_weights\<close> on one weight: the multiplicative step
  and the floor, before the division by the sum.
\<close>

definition stepped :: "(real \<Rightarrow> real) \<Rightarrow> (u32 \<times> PathState) list \<Rightarrow> u32 \<Rightarrow> real \<Rightarrow> real" where
  "stepped ex ps path_id weight =
     (case map_of (map (\<lambda>(path_id, state). (path_id, compute_cost state)) ps) path_id of
        Some c \<Rightarrow>
          max (dbl 0.001) (dbl (weight * ex (dbl (- alpha *
            dbl (c / max (dbl 0.001) (double_sum (map snd
               (map (\<lambda>(path_id, state). (path_id, compute_cost state)) ps))))))))
      | None \<Rightarrow> weight)"

section \<open>Group manager and send hook (packet_hook.hpp, packet_hook.cpp)\<close>

text \<open>
  The clock is not modelled: the timestamp fields of the records below are left out, and
  no modelled operation reads one.
\<close>

record FECGroupInfo =
  gi_group_id :: u64
  gi_k :: u32
  gi_m :: u32
  gi_block_size :: u32

definition FECGroupInfo_default :: FECGroupInfo where
  "FECGroupInfo_default = \<lparr> gi_group_id = 0, gi_k = 0, gi_m = 0, gi_block_size = 0 \<rparr>"

record PendingPacket =
  packet_number :: u64
  pp_path_id :: u32
  data :: "u8 list"

record EncodingGroup =
  eg_group_id :: u64
  eg_info :: FECGroupInfo
  source_packets :: "PendingPacket list"
  repair_frames :: "FECFrame list"
  is_encoded :: bool

record FECGroupManager =
  current_k :: u32
  current_m :: u32
  gm_block_size :: u32
  next_group_id :: u64
  encoder :: FECEncoder
  current_group :: EncodingGroup
  encoded_groups :: "u64 \<Rightarrow> EncodingGroup option"

text \<open>
  \<^verbatim>\<open>FECGroupManager::create_new_group\<close>: the new group, and the manager with
  \<open>next_group_id\<close> advanced.
\<close>

definition create_new_group :: "FECGroupManager \<Rightarrow> EncodingGroup \<times> FECGroupManager" where
  "create_new_group gm =
     (\<lparr> eg_group_id = next_group_id gm,
        eg_info = \<lparr> gi_group_id = next_group_id gm, gi_k = current_k gm, gi_m = current_m gm,
                    gi_block_size = gm_block_size gm \<rparr>,
        source_packets = [], repair_frames = [], is_encoded = False \<rparr>,
      gm\<lparr> next_group_id := next_group_id gm + 1 \<rparr>)"

text \<open>
  The constructor: group ids start at 1, the encoder is built first (and may throw), then
  the first group is created.
\<close>

definition FECGroupManager_new :: "u32 \<Rightarrow> u32 \<Rightarrow> u32 \<Rightarrow> error + FECGroupManager" where
  "FECGroupManager_new default_k default_m bs =
     (case FECEncoder_new default_k default_m bs of
        Inl e \<Rightarrow> Inl e
      | Inr enc \<Rightarrow>
          let gm0 = \<lparr> current_k = default_k, current_m = default_m, gm_block_size = bs,
                      next_group_id = 1, encoder = enc,
                      current_group = \<lparr> eg_group_id = 0, eg_info = FECGroupInfo_default,
                                        source_packets = [], repair_frames = [],
                                        is_encoded = False \<rparr>,
                      encoded_groups = Map.empty \<rparr>;
              (g, gm1) = create_new_group gm0
          in Inr (gm1\<lparr> current_group := g \<rparr>))"

text \<open>
  \<^verbatim>\<open>FECGroupManager::perform_encoding\<close>.  The index \<^verbatim>\<open>current_k_ + i\<close> and the payload
  size are \<^verbatim>\<open>size_t\<close> values stored into 32-bit fields.
\<close>

definition perform_encoding :: "FECGroupManager \<Rightarrow> EncodingGroup \<Rightarrow> error + EncodingGroup" where
  "perform_encoding gm g =
     (case encode (encoder gm) (map data (source_packets g)) of
        Inl e \<Rightarrow> Inl e
      | Inr parity_blocks \<Rightarrow>
          Inr (g\<lparr> repair_frames :=
                     map (\<lambda>(i, block).
                            \<lparr> header = \<lparr> frame_type = FEC_REPAIR_FRAME,
                                         group_id = eg_group_id g,
                                         block_index = current_k gm + of_nat i,
                                         total_blocks = current_k gm + current_m gm,
                                         payload_length = of_nat (length block) \<rparr>,
                              payload = block \<rparr>)
                         (zip [0..<length parity_blocks] parity_blocks),
                   is_encoded := True \<rparr>))"

text \<open>
  \<^verbatim>\<open>FECGroupManager::add_source_packet\<close>: the packet is appended as it is; when the
  group holds \<open>current_k\<close> packets it is encoded, stored and replaced, and its id is
  returned, otherwise 0.  An exception of the encoder leaves the function; the model
  does not follow the manager after it.
\<close>

definition add_source_packet ::
  "PendingPacket \<Rightarrow> FECGroupManager \<Rightarrow> error + (u64 \<times> FECGroupManager)" where
  "add_source_packet packet gm =
     (let g = (current_group gm)\<lparr> source_packets := source_packets (current_group gm) @ [packet] \<rparr>
      in if length (source_packets g) \<ge> unat (current_k gm)
         then (case perform_encoding gm g of
                 Inl e \<Rightarrow> Inl e
               | Inr g' \<Rightarrow>
                   let gm1 = gm\<lparr> encoded_groups := (encoded_groups gm)(eg_group_id g \<mapsto> g') \<rparr>;
                       (fresh, gm2) = create_new_group gm1
                   in Inr (eg_group_id g, gm2\<lparr> current_group := fresh \<rparr>))
         else Inr (0, gm\<lparr> current_group := g \<rparr>))"

definition get_encoded_group :: "FECGroupManager \<Rightarrow> u64 \<Rightarrow> EncodingGroup option" where
  "get_encoded_group gm gid = encoded_groups gm gid"

text \<open>\<^verbatim>\<open>PacketSendHook::wrap_source_frame\<close>.\<close>

definition wrap_source_frame :: "u64 \<Rightarrow> u32 \<Rightarrow> u32 \<Rightarrow> u8 list \<Rightarrow> FECFrame" where
  "wrap_source_frame gid block_idx total_n dat =
     \<lparr> header = \<lparr> frame_type = FEC_SOURCE_FRAME, group_id = gid, block_index = block_idx,
                    total_blocks = total_n, payload_length = of_nat (length dat) \<rparr>,
       payload = dat \<rparr>"

text \<open>
  \<^verbatim>\<open>PacketSendHook::on_packet_send\<close>.  The hook holds its own \<open>fec_enabled\<close> flag and a
  shared pointer to the group manager; the model passes both.  The whole
  \<open>stream_data\<close> becomes the data of one pending packet.
\<close>

definition on_packet_send ::
  "bool \<Rightarrow> u64 \<Rightarrow> u32 \<Rightarrow> u8 list \<Rightarrow> FECFrame list \<Rightarrow> FECGroupManager
     \<Rightarrow> error + (bool \<times> FECFrame list \<times> FECGroupManager)" where
  "on_packet_send hook_enabled packet_num path stream_data out_packets gm =
     (if \<not> hook_enabled then Inr (False, out_packets, gm)
      else
        let pending = \<lparr> packet_number = packet_num, pp_path_id = path, data = stream_data \<rparr>
        in case add_source_packet pending gm of
             Inl e \<Rightarrow> Inl e
           | Inr (completed_group_id, gm') \<Rightarrow>
               if completed_group_id > 0
               then (case get_encoded_group gm' completed_group_id of
                       Some g \<Rightarrow>
                         if is_encoded g
                         then Inr (True,
                                   out_packets
                                   @ map (\<lambda>(i, p). wrap_source_frame (eg_group_id g) (of_nat i)
                                                     (gi_k (eg_info g) + gi_m (eg_info g)) (data p))
                                         (zip [0..<length (source_packets g)] (source_packets g))
                                   @ repair_frames g,
                                   gm')
                         else Inr (False, out_packets, gm')
                     | None \<Rightarrow> Inr (False, out_packets, gm'))
               else Inr (False, out_packets, gm'))"

section \<open>Packet number mapper (fec_frame.hpp, fec_frame.cpp)\<close>

record PacketMapping =
  pm_group_id :: u64
  pm_block_index :: u32
  pm_path_id :: u32
  pm_packet_number :: u64
  pm_is_repair :: bool

record PacketNumberMapper =
  pkt_to_mapping :: "u32 \<times> u64 \<Rightarrow> PacketMapping option"
  group_to_mappings :: "u64 \<Rightarrow> PacketMapping list option"

definition add_mapping ::
  "u64 \<Rightarrow> u32 \<Rightarrow> u32 \<Rightarrow> u64 \<Rightarrow> bool \<Rightarrow> PacketNumberMapper \<Rightarrow> PacketNumberMapper" where
  "add_mapping gid block_idx path pkt_num repair pm =
     (let mapping = \<lparr> pm_group_id = gid, pm_block_index = block_idx, pm_path_id = path,
                       pm_packet_number = pkt_num, pm_is_repair = repair \<rparr>
      in pm\<lparr> pkt_to_mapping := (pkt_to_mapping pm)((path, pkt_num) \<mapsto> mapping),
             group_to_mappings :=
               (group_to_mappings pm)
                 (gid \<mapsto> (case group_to_mappings pm gid of None \<Rightarrow> [] | Some ms \<Rightarrow> ms)
                            @ [mapping]) \<rparr>)"

section \<open>Receive hook (packet_hook.hpp, packet_hook.cpp)\<close>

record ReceivedGroup =
  rg_info :: FECGroupInfo
  received_frames :: "(u32 \<times> FECFrame) list"
  is_complete :: bool

definition ReceivedGroup_default :: ReceivedGroup where
  "ReceivedGroup_default =
     \<lparr> rg_info = FECGroupInfo_default, received_frames = [], is_complete = False \<rparr>"

record PacketReceiveHook =
  received_groups :: "u64 \<Rightarrow> ReceivedGroup option"
  decoders :: "u32 \<times> u32 \<Rightarrow> FECDecoder option"

definition PacketReceiveHook_new :: PacketReceiveHook where
  "PacketReceiveHook_new = \<lparr> received_groups = Map.empty, decoders = Map.empty \<rparr>"

text \<open>\<^verbatim>\<open>received_groups_[group_id]\<close>: the entry, or a default-constructed one.\<close>

definition group_at :: "PacketReceiveHook \<Rightarrow> u64 \<Rightarrow> ReceivedGroup" where
  "group_at rh gid = (case received_groups rh gid of Some g \<Rightarrow> g | None \<Rightarrow> ReceivedGroup_default)"

text \<open>
  \<^verbatim>\<open>PacketReceiveHook::try_decode_group\<close>.  The decoder for \<open>(k, m)\<close> is created once,
  with the block size of the group that creates it, and reused.  The blocks go to
  \<open>decode\<close> in ascending order of their index.  An exception of \<open>decode\<close> is caught, and
  nothing is returned.
\<close>

definition try_decode_group ::
  "u64 \<Rightarrow> PacketReceiveHook \<Rightarrow> u8 list list \<times> PacketReceiveHook" where
  "try_decode_group gid rh =
     (let recv_group = group_at rh gid
      in if is_complete recv_group then ([], rh)
         else
           let key = (gi_k (rg_info recv_group), gi_m (rg_info recv_group));
               decoder = (case decoders rh key of
                            Some d \<Rightarrow> d
                          | None \<Rightarrow> FECDecoder_new (gi_k (rg_info recv_group))
                                      (gi_m (rg_info recv_group))
                                      (gi_block_size (rg_info recv_group)));
               rh1 = rh\<lparr> decoders := (decoders rh)(key \<mapsto> decoder) \<rparr>;
               received_blocks = map (\<lambda>(block_idx, frame). payload frame)
                                     (received_frames recv_group);
               block_ids = map fst (received_frames recv_group)
           in case decode decoder received_blocks block_ids of
                Inr decoded \<Rightarrow>
                  (decoded,
                   rh1\<lparr> received_groups :=
                          (received_groups rh1)(gid \<mapsto> recv_group\<lparr> is_complete := True \<rparr>) \<rparr>)
              | Inl e \<Rightarrow> ([], rh1))"

text \<open>
  \<^verbatim>\<open>PacketReceiveHook::on_frame_received\<close>.  The frame is stored under its block index
  (a second frame with the same index replaces the first).  While the group's
  \<open>info.group_id\<close> is 0, \<open>k\<close> and \<open>m\<close> are derived from the frame's \<open>total_blocks\<close> alone:
  \<^verbatim>\<open>k = (total * 2) / 3\<close> in 32-bit unsigned arithmetic, \<^verbatim>\<open>m = total - k\<close>.
\<close>

definition on_frame_received ::
  "FECFrame \<Rightarrow> PacketReceiveHook \<Rightarrow> u8 list list \<times> PacketReceiveHook" where
  "on_frame_received frame rh =
     (let gid = group_id (header frame);
          g0 = group_at rh gid;
          g1 = g0\<lparr> received_frames :=
                     map_insert (block_index (header frame)) frame (received_frames g0) \<rparr>;
          g2 = (if gi_group_id (rg_info g1) = 0
                then
                  let total_n = total_blocks (header frame);
                      k = (total_n * 2) div 3
                  in g1\<lparr> rg_info := \<lparr> gi_group_id = gid, gi_k = k, gi_m = total_n - k,
                                       gi_block_size = of_nat (length (payload frame)) \<rparr> \<rparr>
                else g1);
          rh1 = rh\<lparr> received_groups := (received_groups rh)(gid \<mapsto> g2) \<rparr>
      in if length (received_frames g2) \<ge> unat (gi_k (rg_info g2))
         then try_decode_group gid rh1
         else ([], rh1))"

text \<open>
  What the containers of the hook guarantee by their types: the frames of a group are
  the entries of a \<^verbatim>\<open>std::map\<close>, so their block indices ascend strictly, and a decoder
  is filed under the \<open>k\<close> it was constructed with.
\<close>

definition hook_sound :: "PacketReceiveHook \<Rightarrow> bool" where
  "hook_sound rh \<longleftrightarrow>
     (\<forall>gid g. received_groups rh gid = Some g
        \<longrightarrow> sorted_wrt (<) (map fst (received_frames g)))
     \<and> (\<forall>k m d. decoders rh (k, m) = Some d \<longrightarrow> dec_k d = k)"

section \<open>Master controller (mpquic_fec_controller.hpp, mpquic_fec_controller.cpp)\<close>

record SendPacketMeta =
  meta_packet_number :: u64
  meta_path_id :: u32
  frame :: FECFrame
  is_repair :: bool

record Statistics =
  total_packets_sent :: u64
  source_packets_sent :: u64
  repair_packets_sent :: u64
  packets_recovered :: u64
  fec_groups_created :: u64
  current_redundancy_rate :: real
  avg_encoding_time_us :: real

definition Statistics_new :: Statistics where
  "Statistics_new =
     \<lparr> total_packets_sent = 0, source_packets_sent = 0, repair_packets_sent = 0,
       packets_recovered = 0, fec_groups_created = 0, current_redundancy_rate = 0,
       avg_encoding_time_us = 0 \<rparr>"

text \<open>
  \<^verbatim>\<open>MPQUICFECController\<close>.  \<open>hook_fec_enabled\<close> is the flag of the send hook,
  \<open>fec_enabled\<close> the controller's own.  The group manager and the redundancy controller,
  which the hooks and the scheduler reach through shared pointers, live here once.
\<close>

record MPQUICFECController =
  group_manager :: FECGroupManager
  hook_fec_enabled :: bool
  receive_hook :: PacketReceiveHook
  path_scheduler :: PathScheduler
  oco_controller :: OCORedundancyController
  pkt_mapper :: PacketNumberMapper
  current_decision :: RedundancyDecision
  next_packet_numbers :: "u32 \<Rightarrow> u64 option"
  stats :: Statistics
  fec_enabled :: bool
  ctl_block_size :: u32

definition MPQUICFECController_new :: "u32 \<Rightarrow> u32 \<Rightarrow> u32 \<Rightarrow> error + MPQUICFECController" where
  "MPQUICFECController_new default_k default_m bs =
     (case FECGroupManager_new default_k default_m bs of
        Inl e \<Rightarrow> Inl e
      | Inr gm \<Rightarrow>
          Inr \<lparr> group_manager = gm, hook_fec_enabled = True,
                receive_hook = PacketReceiveHook_new,
                path_scheduler = set_oco_controller PathScheduler_new,
                oco_controller = OCORedundancyController_new,
                pkt_mapper = \<lparr> pkt_to_mapping = Map.empty, group_to_mappings = Map.empty \<rparr>,
                current_decision = RedundancyDecision_default,
                next_packet_numbers = Map.empty, stats = Statistics_new,
                fec_enabled = True, ctl_block_size = bs \<rparr>)"

text \<open>
  \<^verbatim>\<open>MPQUICFECController::add_path\<close>.  The scheduler files the state under the state's
  own id; the packet number counter and the link metrics use the \<open>path_id\<close> argument.
  The scheduler of the controller is given \<open>double_exp\<close> for \<^verbatim>\<open>std::exp\<close>; nothing the
  controller does reads a weight.
\<close>

definition add_path :: "u32 \<Rightarrow> PathState \<Rightarrow> MPQUICFECController \<Rightarrow> MPQUICFECController" where
  "add_path path state c =
     c\<lparr> path_scheduler := update_path_state double_exp state (path_scheduler c),
        next_packet_numbers := (next_packet_numbers c)(path \<mapsto> 1),
        oco_controller :=
          update_link_metrics
            (LinkMetrics_default\<lparr> lm_path_id := path, lm_rtt_ms := rtt_ms state,
                                  lm_loss_rate := loss_rate state,
                                  lm_bandwidth_mbps := bandwidth_mbps state,
                                  lm_jitter_ms := jitter_ms state \<rparr>)
            (oco_controller c) \<rparr>"

definition set_fec_enabled :: "bool \<Rightarrow> MPQUICFECController \<Rightarrow> MPQUICFECController" where
  "set_fec_enabled enabled c = c\<lparr> fec_enabled := enabled, hook_fec_enabled := enabled \<rparr>"

text \<open>
  \<^verbatim>\<open>return next_packet_numbers_[path_id]++\<close>: the counter's value before the call (0
  for a path the map does not know), and the counter advanced by one, in 64 bits.
\<close>

definition get_next_packet_number ::
  "u32 \<Rightarrow> MPQUICFECController \<Rightarrow> u64 \<times> MPQUICFECController" where
  "get_next_packet_number path c =
     (let n = (case next_packet_numbers c path of Some n \<Rightarrow> n | None \<Rightarrow> 0)
      in (n, c\<lparr> next_packet_numbers := (next_packet_numbers c)(path \<mapsto> n + 1) \<rparr>))"

text \<open>
  The body of the loop of \<^verbatim>\<open>assign_packets_to_paths\<close> for one frame, with the
  controller and the output list as its state.
\<close>

definition assign_one ::
  "u32 \<Rightarrow> u32 \<Rightarrow> FECFrame \<Rightarrow> MPQUICFECController \<times> SendPacketMeta list
     \<Rightarrow> MPQUICFECController \<times> SendPacketMeta list" where
  "assign_one src rep fr = (\<lambda>(c, out_packets).
     (let path = (if is_source_frame fr then src else rep);
          repair = (\<not> is_source_frame fr);
          (n, c1) = get_next_packet_number path c;
          st = stats c1;
          st1 = (if is_source_frame fr
                 then st\<lparr> source_packets_sent := source_packets_sent st + 1 \<rparr>
                 else st\<lparr> repair_packets_sent := repair_packets_sent st + 1 \<rparr>);
          st2 = st1\<lparr> total_packets_sent := total_packets_sent st1 + 1 \<rparr>;
          meta = \<lparr> meta_packet_number = n, meta_path_id = path, frame = fr,
                   is_repair = repair \<rparr>
      in (c1\<lparr> stats := st2,
              pkt_mapper := add_mapping (group_id (header fr)) (block_index (header fr))
                              path n repair (pkt_mapper c1) \<rparr>,
          out_packets @ [meta])))"

text \<open>
  \<^verbatim>\<open>MPQUICFECController::assign_packets_to_paths\<close>.  The two selections run first and
  are the only operations that can fail.
\<close>

definition assign_packets_to_paths ::
  "FECFrame list \<Rightarrow> MPQUICFECController \<times> SendPacketMeta list
     \<Rightarrow> error + (MPQUICFECController \<times> SendPacketMeta list)" where
  "assign_packets_to_paths frames = (\<lambda>(c, out_packets).
     (case select_source_path (path_scheduler c) of
        Inl e \<Rightarrow> Inl e
      | Inr src \<Rightarrow>
          (case select_repair_path (path_scheduler c) src of
             Inl e \<Rightarrow> Inl e
           | Inr rep \<Rightarrow> Inr (foldl (\<lambda>acc fr. assign_one src rep fr acc) (c, out_packets) frames))))"

text \<open>
  \<^verbatim>\<open>MPQUICFECController::send_stream_data\<close>.  With FEC disabled the frame of the one
  packet is default-initialised and only its type and payload are assigned; \<open>uninit\<close>
  stands for the indeterminate header it starts from.  With FEC enabled a packet
  number of \<open>original_path_id\<close> is drawn for \<^verbatim>\<open>fake_pkt_num\<close> on every call, the payload
  is handed to the send hook whole, and packets come back only from the call that
  completes a group.
\<close>

definition send_stream_data ::
  "FECFrameHeader \<Rightarrow> u8 list \<Rightarrow> u32 \<Rightarrow> MPQUICFECController
     \<Rightarrow> error + (SendPacketMeta list \<times> MPQUICFECController)" where
  "send_stream_data uninit stream_data original_path_id c =
     (if \<not> fec_enabled c
      then
        let (n, c1) = get_next_packet_number original_path_id c
        in Inr ([\<lparr> meta_packet_number = n, meta_path_id = original_path_id,
                    frame = \<lparr> header = uninit\<lparr> frame_type := FEC_SOURCE_FRAME \<rparr>,
                              payload = stream_data \<rparr>,
                    is_repair = False \<rparr>], c1)
      else
        let (n, c1) = get_next_packet_number original_path_id c;
            fake_pkt_num = n - 1
        in case on_packet_send (hook_fec_enabled c1) fake_pkt_num original_path_id stream_data []
                  (group_manager c1) of
             Inl e \<Rightarrow> Inl e
           | Inr (has_encoded, fec_frames, gm') \<Rightarrow>
               let c2 = c1\<lparr> group_manager := gm' \<rparr>
               in if has_encoded \<and> fec_frames \<noteq> []
                  then (case assign_packets_to_paths fec_frames (c2, []) of
                          Inl e \<Rightarrow> Inl e
                        | Inr (c3, result) \<Rightarrow>
                            Inr (result,
                                 c3\<lparr> stats := (stats c3)\<lparr> fec_groups_created :=
                                                  fec_groups_created (stats c3) + 1 \<rparr> \<rparr>))
                  else Inr ([], c2))"

text \<open>\<^verbatim>\<open>MPQUICFECController::receive_fec_frame\<close>; the source path is not read.\<close>

definition receive_fec_frame ::
  "FECFrame \<Rightarrow> u32 \<Rightarrow> MPQUICFECController \<Rightarrow> u8 list list \<times> MPQUICFECController" where
  "receive_fec_frame fr from_path_id c =
     (let (recovered, rh) = on_frame_received fr (receive_hook c);
          c1 = c\<lparr> receive_hook := rh \<rparr>
      in if recovered \<noteq> []
         then (recovered,
               c1\<lparr> stats := (stats c1)\<lparr> packets_recovered :=
                                 packets_recovered (stats c1) + of_nat (length recovered) \<rparr> \<rparr>)
         else (recovered, c1))"

section \<open>Concrete inputs of the scenarios\<close>

text \<open>
  The repair frame of the wire round-trip scenario: group \<open>0xDEADBEEF\<close>, block 7 of 10,
  1200 payload bytes \<open>0xAA\<close>.
\<close>

definition wire_frame :: FECFrame where
  "wire_frame =
     \<lparr> header = \<lparr> frame_type = FEC_REPAIR_FRAME, group_id = 0xDEADBEEF, block_index = 7,
                    total_blocks = 10, payload_length = 1200 \<rparr>,
       payload = replicate 1200 0xAA \<rparr>"

text \<open>The source blocks of the recovery scenario: \<open>k = 4\<close>, \<open>m = 2\<close>, blocks of 4 bytes.\<close>

definition scenario_blocks :: "u8 list list" where
  "scenario_blocks = [[1, 2, 3, 4], [5, 6, 7, 8], [9, 10, 11, 12], [13, 14, 15, 16]]"


text \<open>
  Driving the controller: a controller constructed with \<open>(k, m, block_size)\<close> to which
  paths are added, and a sequence of \<open>send_stream_data\<close> calls from one origin path,
  whose outputs are concatenated.  An error ends the run.
\<close>

definition with_paths ::
  "PathState list \<Rightarrow> error + MPQUICFECController \<Rightarrow> error + MPQUICFECController" where
  "with_paths states r =
     (case r of
        Inl e \<Rightarrow> Inl e
      | Inr c \<Rightarrow> Inr (foldl (\<lambda>c state. add_path (ps_path_id state) state c) c states))"

fun send_each ::
  "FECFrameHeader \<Rightarrow> u8 list list \<Rightarrow> u32 \<Rightarrow> SendPacketMeta list \<times> MPQUICFECController
     \<Rightarrow> error + (SendPacketMeta list \<times> MPQUICFECController)" where
  "send_each uninit [] origin (sent, c) = Inr (sent, c)"
| "send_each uninit (payload_bytes # rest) origin (sent, c) =
     (case send_stream_data uninit payload_bytes origin c of
        Inl e \<Rightarrow> Inl e
      | Inr (out, c') \<Rightarrow> send_each uninit rest origin (sent @ out, c'))"

definition run_sends ::
  "u8 list list \<Rightarrow> u32 \<Rightarrow> error + MPQUICFECController
     \<Rightarrow> error + (SendPacketMeta list \<times> MPQUICFECController)" where
  "run_sends payloads origin r =
     (case r of
        Inl e \<Rightarrow> Inl e
      | Inr c \<Rightarrow>
          send_each \<lparr> frame_type = 0, group_id = 0, block_index = 0, total_blocks = 0,
                      payload_length = 0 \<rparr> payloads origin ([], c))"

text \<open>What a run emitted: path and packet number of every packet, in order.\<close>

definition emitted ::
  "error + (SendPacketMeta list \<times> MPQUICFECController) \<Rightarrow> (u32 \<times> u64) list option" where
  "emitted r =
     (case r of
        Inl e \<Rightarrow> None
      | Inr (sent, c) \<Rightarrow> Some (map (\<lambda>p. (meta_path_id p, meta_packet_number p)) sent))"

text \<open>A good path (id 0) and two paths with 90 percent loss (ids 0 and 1).\<close>

definition good_path :: PathState where
  "good_path =
     \<lparr> ps_path_id = 0, rtt_ms = 20, loss_rate = 0.01, bandwidth_mbps = 100, bytes_sent = 0,
       bytes_acked = 0, jitter_ms = 2, cwnd = 0 \<rparr>"



text \<open>The controller state a run ends in.\<close>

definition state_after ::
  "error + (SendPacketMeta list \<times> MPQUICFECController) \<Rightarrow> MPQUICFECController option" where
  "state_after r = (case r of Inl e \<Rightarrow> None | Inr (sent, c) \<Rightarrow> Some c)"

text \<open>
  Source frame number \<open>i\<close> of group 1 as a sender with \<open>k = 10\<close> and \<open>m = 1\<close> emits it
  (\<open>total_blocks = 11\<close>), with a payload of two bytes; and the delivery of a list of
  frames to a receive hook, collecting what each delivery returns.
\<close>

definition frame_of_eleven :: "u32 \<Rightarrow> FECFrame" where
  "frame_of_eleven i = wrap_source_frame 1 i 11 [ucast i, 0]"

fun receive_each ::
  "FECFrame list \<Rightarrow> PacketReceiveHook \<Rightarrow> u8 list list list \<times> PacketReceiveHook" where
  "receive_each [] rh = ([], rh)"
| "receive_each (fr # rest) rh =
     (let (out, rh') = on_frame_received fr rh;
          (outs, rh'') = receive_each rest rh'
      in (out # outs, rh''))"

text \<open>The receive hook after the source frames 0 to 5 of that group have been delivered.\<close>

definition hook_after_six :: PacketReceiveHook where
  "hook_after_six =
     snd (receive_each (map frame_of_eleven [0, 1, 2, 3, 4, 5]) PacketReceiveHook_new)"


text \<open>
  A near path (2 ms, no loss, 2000 Mbit/s; cost about 0.02) and a far path (id 1; 1000 ms,
  the double \<open>0.6\<close> as loss rate, 25 Mbit/s; cost about 5.98).
\<close>

definition near_path :: "u32 \<Rightarrow> PathState" where
  "near_path i =
     \<lparr> ps_path_id = i, rtt_ms = 2, loss_rate = 0, bandwidth_mbps = 2000, bytes_sent = 0,
       bytes_acked = 0, jitter_ms = 0, cwnd = 0 \<rparr>"

definition far_path :: PathState where
  "far_path =
     \<lparr> ps_path_id = 1, rtt_ms = 1000, loss_rate = dbl 0.6, bandwidth_mbps = 25, bytes_sent = 0,
       bytes_acked = 0, jitter_ms = 0, cwnd = 0 \<rparr>"




section \<open>Double arithmetic: the rounding\<close>



lemma rne_of_int [simp]: "rne (of_int n) = n"
  by (simp add: rne_def)

lemma rne_zero [simp]: "rne 0 = 0"
  using rne_of_int [of 0] by simp





lemma ulp_pos [simp]: "0 < ulp x"
  by (simp add: ulp_def)

lemma ulp_nonneg [simp]: "0 \<le> ulp x"
  by (simp add: ulp_def)

lemma ulp_neq_zero [simp]: "ulp x \<noteq> 0"
  by (simp add: ulp_def)

lemma dbl_zero [simp]: "dbl 0 = 0"
  by (simp add: dbl_def)






lemma ulp_least: "2 powr (- 1074) \<le> ulp x"
proof -
  have "- 1022 \<le> binade x" by (simp add: binade_def)
  then have "(- 1022 :: real) \<le> of_int (binade x)" by linarith
  then show ?thesis unfolding ulp_def by (intro powr_mono) simp_all
qed










section \<open>Frame codec: byte order\<close>

lemma ff_is_mask: "(0xFF :: 'a::len word) = mask 8"
  by (simp add: mask_eq_exp_minus_1)

lemma byte_step:
  fixes w :: "'a::len word"
  shows "push_bit 8 (drop_bit (Suc i * 8) w)
           OR ucast (ucast (drop_bit (i * 8) w AND 0xFF) :: u8)
         = drop_bit (i * 8) w"
  unfolding ff_is_mask
proof (rule bit_word_eqI)
  fix n assume n: "n < LENGTH('a)"
  have e: "\<not> n < 8 \<Longrightarrow> 8 + i * 8 + (n - 8) = i * 8 + n" by arith
  show "bit (push_bit 8 (drop_bit (Suc i * 8) w)
             OR ucast (ucast (drop_bit (i * 8) w AND mask 8) :: u8)) n
      = bit (drop_bit (i * 8) w) n"
    using n e by (cases "n < 8") (auto simp add: bit_simps)
qed

lemma shift_in32_step:
  "shift_in32 (drop_bit (Suc i * 8) w) (be_byte32 w i) = drop_bit (i * 8) w"
  unfolding shift_in32_def be_byte32_def by (rule byte_step)

lemma shift_in64_step:
  "shift_in64 (drop_bit (Suc i * 8) w) (be_byte64 w i) = drop_bit (i * 8) w"
  unfolding shift_in64_def be_byte64_def by (rule byte_step)

lemma be32_round_trip:
  "shift_in32 (shift_in32 (shift_in32 (shift_in32 0 (be_byte32 w 3)) (be_byte32 w 2))
      (be_byte32 w (Suc 0))) (be_byte32 w 0) = w"
proof -
  have z: "(0::u32) = drop_bit (Suc 3 * 8) w" by simp
  show ?thesis
    apply (subst z)
    using shift_in32_step[of 3 w] shift_in32_step[of 2 w]
          shift_in32_step[of 1 w] shift_in32_step[of 0 w]
    apply (simp add: numeral_3_eq_3 numeral_2_eq_2)
    done
qed

lemma be64_round_trip:
  "shift_in64 (shift_in64 (shift_in64 (shift_in64 (shift_in64 (shift_in64 (shift_in64
     (shift_in64 0 (be_byte64 w 7)) (be_byte64 w 6)) (be_byte64 w 5)) (be_byte64 w 4))
     (be_byte64 w 3)) (be_byte64 w 2)) (be_byte64 w (Suc 0))) (be_byte64 w 0) = w"
proof -
  have z: "(0::u64) = drop_bit (Suc 7 * 8) w" by simp
  have s: "Suc 7 = 8" "Suc 6 = 7" "Suc 5 = 6" "Suc 4 = 5" "Suc 3 = 4" "Suc 2 = 3"
    "Suc 1 = 2" by simp_all
  show ?thesis
    apply (subst z)
    using shift_in64_step[of 7 w] shift_in64_step[of 6 w] shift_in64_step[of 5 w]
          shift_in64_step[of 4 w] shift_in64_step[of 3 w] shift_in64_step[of 2 w]
          shift_in64_step[of 1 w] shift_in64_step[of 0 w]
    apply (simp add: s)
    done
qed

lemma header_bytes:
  "FECFrameHeader_serialize h =
     [frame_type h,
      be_byte64 (group_id h) 7, be_byte64 (group_id h) 6, be_byte64 (group_id h) 5,
      be_byte64 (group_id h) 4, be_byte64 (group_id h) 3, be_byte64 (group_id h) 2,
      be_byte64 (group_id h) (Suc 0), be_byte64 (group_id h) 0,
      be_byte32 (block_index h) 3, be_byte32 (block_index h) 2,
      be_byte32 (block_index h) (Suc 0), be_byte32 (block_index h) 0,
      be_byte32 (total_blocks h) 3, be_byte32 (total_blocks h) 2,
      be_byte32 (total_blocks h) (Suc 0), be_byte32 (total_blocks h) 0,
      be_byte32 (payload_length h) 3, be_byte32 (payload_length h) 2,
      be_byte32 (payload_length h) (Suc 0), be_byte32 (payload_length h) 0,
      0, 0, 0, 0]"
  by (simp add: FECFrameHeader_serialize_def HEADER_SIZE_def upt_rec_numeral
      numeral_eq_Suc)

lemma length_header: "length (FECFrameHeader_serialize h) = 25"
  by (simp add: header_bytes)

lemma header_round_trip:
  "FECFrameHeader_deserialize (FECFrameHeader_serialize h @ p) = Inr h"
  by (simp add: FECFrameHeader_deserialize_def header_bytes HEADER_SIZE_def
      be32_round_trip be64_round_trip)


section \<open>Frame codec: round trip and parse failures\<close>

lemma serialize_length:
  "length (FECFrame_serialize f) = 25 + length (payload f)"
  by (simp add: FECFrame_serialize_def length_header)

lemma serialize_reserved:
  "take 4 (drop 21 (FECFrame_serialize f)) = [0, 0, 0, 0]"
  by (simp add: FECFrame_serialize_def header_bytes)

lemma deserialize_serialize:
  assumes "unat (payload_length (header f)) = length (payload f)"
  shows "FECFrame_deserialize (FECFrame_serialize f) = Inr f"
  using assms
  by (simp add: FECFrame_deserialize_def FECFrame_serialize_def header_round_trip
      length_header HEADER_SIZE_def)

text \<open>
  C4.  A well-formed frame (type \<open>0xF0\<close> or \<open>0xF1\<close>, \<open>payload_length\<close> equal to the
  length of the payload) is parsed back from its serialisation unchanged; the
  serialisation is 25 bytes longer than the payload, and its bytes 21 to 24, the
  reserved ones, are zero.
\<close>

theorem frame_round_trip:
  assumes "frame_type (header f) = FEC_SOURCE_FRAME \<or> frame_type (header f) = FEC_REPAIR_FRAME"
    and "unat (payload_length (header f)) = length (payload f)"
  shows "FECFrame_deserialize (FECFrame_serialize f) = Inr f
       \<and> length (FECFrame_serialize f) = 25 + length (payload f)
       \<and> take 4 (drop 21 (FECFrame_serialize f)) = [0, 0, 0, 0]"
  using assms(2) deserialize_serialize serialize_length serialize_reserved by blast

theorem frame_round_trip_witness:
  "FECFrame_deserialize (FECFrame_serialize wire_frame) = Inr wire_frame
   \<and> length (FECFrame_serialize wire_frame) = 1225
   \<and> take 4 (drop 21 (FECFrame_serialize wire_frame)) = [0, 0, 0, 0]"
  using frame_round_trip [of wire_frame] by (simp add: wire_frame_def)

text \<open>
  C5 as the code has it.  Fewer than 25 bytes: \<open>ShortHeader\<close>.  At least 25 bytes but
  fewer than 25 plus the payload length read from bytes 17 to 20: \<open>ShortPayload\<close>.
  Otherwise the parse succeeds, whatever the type byte is: the frame produced carries
  the first byte as its type.  No failure produces a frame.
\<close>

theorem parse_failures:
  "(length bs < 25 \<longrightarrow> FECFrame_deserialize bs = Inl ShortHeader)
 \<and> (25 \<le> length bs \<and> length bs < 25 + unat (foldl shift_in32 0 (take 4 (drop 17 bs)))
      \<longrightarrow> FECFrame_deserialize bs = Inl ShortPayload)
 \<and> (25 + unat (foldl shift_in32 0 (take 4 (drop 17 bs))) \<le> length bs
      \<longrightarrow> (\<exists>f. FECFrame_deserialize bs = Inr f \<and> frame_type (header f) = bs ! 0
              \<and> payload_length (header f) = foldl shift_in32 0 (take 4 (drop 17 bs))
              \<and> payload f = take (unat (payload_length (header f))) (drop 25 bs)))"
  by (simp add: FECFrame_deserialize_def FECFrameHeader_deserialize_def HEADER_SIZE_def)

theorem parse_failures_witness:
  "FECFrame_deserialize [0xF0, 0,0,0,0,0,0,0,1, 0,0,0,0, 0,0,0,6, 0,0,0,0, 0,0,0] = Inl ShortHeader
 \<and> FECFrame_deserialize [0xF0, 0,0,0,0,0,0,0,1, 0,0,0,0, 0,0,0,6, 0,0,0,2, 0,0,0,0, 7] = Inl ShortPayload
 \<and> (\<exists>f. FECFrame_deserialize [0x42, 0,0,0,0,0,0,0,1, 0,0,0,0, 0,0,0,6, 0,0,0,2, 0,0,0,0, 7, 9] = Inr f
        \<and> frame_type (header f) = 0x42 \<and> payload f = [7, 9])"
proof -
  let ?a = "[0xF0, 0,0,0,0,0,0,0,1, 0,0,0,0, 0,0,0,6, 0,0,0,0, 0,0,0] :: u8 list"
  let ?b = "[0xF0, 0,0,0,0,0,0,0,1, 0,0,0,0, 0,0,0,6, 0,0,0,2, 0,0,0,0, 7] :: u8 list"
  let ?c = "[0x42, 0,0,0,0,0,0,0,1, 0,0,0,0, 0,0,0,6, 0,0,0,2, 0,0,0,0, 7, 9] :: u8 list"
  have a: "length ?a < 25" by simp
  have lb: "length ?b = 26" by simp
  have lc: "length ?c = 27" by simp
  have pb: "foldl shift_in32 0 (take 4 (drop 17 ?b)) = 2" by (simp add: shift_in32_def)
  have pc: "foldl shift_in32 0 (take 4 (drop 17 ?c)) = 2" by (simp add: shift_in32_def)
  have c0: "?c ! 0 = 0x42" by simp
  have dc: "take 2 (drop 25 ?c) = [7, 9]" by simp
  have 1: "FECFrame_deserialize ?a = Inl ShortHeader"
    using parse_failures [of ?a] a by blast
  have 2: "FECFrame_deserialize ?b = Inl ShortPayload"
    using parse_failures [of ?b] by (simp only: lb pb) simp
  have 3: "\<exists>f. FECFrame_deserialize ?c = Inr f \<and> frame_type (header f) = 0x42
            \<and> payload f = [7, 9]"
    using parse_failures [of ?c] dc by (simp only: lc pc c0) auto
  from 1 2 3 show ?thesis by blast
qed

text \<open>
  The claim's third failure does not exist: 25 bytes whose first byte is \<open>0x08\<close>
  (neither \<open>0xF0\<close> nor \<open>0xF1\<close>) and whose length field is zero parse to a frame.
\<close>

theorem unknown_type_accepted:
  "FECFrame_deserialize (0x08 # replicate 24 0)
     = Inr \<lparr> header = \<lparr> frame_type = 0x08, group_id = 0, block_index = 0,
                          total_blocks = 0, payload_length = 0 \<rparr>,
             payload = [] \<rparr>"
  by (simp add: FECFrame_deserialize_def FECFrameHeader_deserialize_def HEADER_SIZE_def
      shift_in32_def shift_in64_def numeral_eq_Suc)

section \<open>Block codec: what decode returns\<close>

lemma collect_sources_prefix:
  "\<exists>ys. collect_sources k xs acc = acc @ ys \<and> set ys \<subseteq> fst ` {x \<in> set xs. snd x < k}"
proof (induction xs arbitrary: acc)
  case Nil
  then show ?case by simp
next
  case (Cons x xs)
  obtain b i where x: "x = (b, i)" by (cases x)
  show ?case
  proof (cases "length acc < unat k")
    case False
    then show ?thesis using x by simp
  next
    case room: True
    show ?thesis
    proof (cases "i < k")
      case True
      from Cons.IH[of "acc @ [b]"] obtain ys where
        "collect_sources k xs (acc @ [b]) = (acc @ [b]) @ ys"
        "set ys \<subseteq> fst ` {x \<in> set xs. snd x < k}"
        by blast
      then show ?thesis using x True room
        by (intro exI[of _ "b # ys"]) (auto simp: image_iff)
    next
      case False
      from Cons.IH[of acc] obtain ys where
        "collect_sources k xs acc = acc @ ys"
        "set ys \<subseteq> fst ` {x \<in> set xs. snd x < k}"
        by blast
      then show ?thesis using x False room
        by (intro exI[of _ ys]) auto
    qed
  qed
qed

text \<open>
  Whatever is presented, every block that \<open>decode\<close> returns is either a received block
  whose id is below \<open>k\<close> or a block of zero bytes: the repair blocks are never read.
\<close>

lemma decode_reads_no_repair:
  assumes "decode d received_blocks block_ids = Inr out"
  shows "set out \<subseteq> fst ` {x \<in> set (zip received_blocks block_ids). snd x < dec_k d}
                   \<union> {replicate (unat (dec_block_size d)) 0}"
proof -
  obtain ys where ys: "collect_sources (dec_k d) (zip received_blocks block_ids) [] = [] @ ys"
    "set ys \<subseteq> fst ` {x \<in> set (zip received_blocks block_ids). snd x < dec_k d}"
    using collect_sources_prefix by blast
  from assms have "out = ys @ replicate (unat (dec_k d) - length ys)
                            (replicate (unat (dec_block_size d)) 0)"
    using ys(1) by (auto simp: decode_def Let_def split: if_splits)
  then show ?thesis using ys(2) by auto
qed

text \<open>
  C1 at the scenario of the specification: \<open>k = 4\<close>, \<open>m = 2\<close>, blocks of 4 bytes.
  \<open>encode\<close> produces two repair blocks; presenting \<open>s[0]\<close>, \<open>s[2]\<close> and the two repair
  blocks with the indices 0, 2, 4, 5, \<open>decode\<close> returns \<open>s[0]\<close>, \<open>s[2]\<close> and two blocks of
  zeros, which is not the list of source blocks.
\<close>

theorem decode_scenario_not_recovered:
  "encode \<lparr> enc_k = 4, enc_m = 2, enc_block_size = 4 \<rparr> scenario_blocks
     = Inr [[36, 40, 16, 112], [104, 120, 116, 112]]
   \<and> decode (FECDecoder_new 4 2 4)
        [scenario_blocks ! 0, scenario_blocks ! 2, [36, 40, 16, 112], [104, 120, 116, 112]]
        [0, 2, 4, 5]
     = Inr [[1, 2, 3, 4], [9, 10, 11, 12], [0, 0, 0, 0], [0, 0, 0, 0]]
   \<and> Inr [[1, 2, 3, 4], [9, 10, 11, 12], [0, 0, 0, 0], [0, 0, 0, 0]]
       \<noteq> (Inr scenario_blocks :: error + u8 list list)"
  by code_simp

section \<open>Redundancy controller: the rate and the parameters\<close>





















section \<open>Correlation tables\<close>

text \<open>
  The matrix of the redundancy controller.  An update stores the value cut to
  \<open>[-1, 1]\<close> under the key \<open>(min, max)\<close> and touches no other key; a lookup is symmetric,
  gives 1 on the diagonal and 0 for a pair that has no entry.
\<close>

lemma update_correlation_stored:
  "update_correlation i j rho cm (min i j, max i j) = Some (max (- 1) (min 1 rho))
   \<and> - 1 \<le> max (- 1) (min 1 rho) \<and> max (- 1) (min 1 rho) \<le> (1::real)"
  by (simp add: update_correlation_def Let_def)

lemma update_correlation_other:
  assumes "key \<noteq> (min i j, max i j)"
  shows "update_correlation i j rho cm key = cm key"
  using assms by (simp add: update_correlation_def Let_def)

lemma get_correlation_sym: "get_correlation cm i j = get_correlation cm j i"
  by (simp add: get_correlation_def min.commute max.commute)

lemma get_correlation_self: "get_correlation cm i i = 1"
  by (simp add: get_correlation_def)

lemma get_correlation_default:
  assumes "i \<noteq> j" and "cm (min i j, max i j) = None"
  shows "get_correlation cm i j = 0"
  using assms by (simp add: get_correlation_def)

lemma get_correlation_updated:
  assumes "i \<noteq> j"
  shows "get_correlation (update_correlation i j rho cm) i j = max (- 1) (min 1 rho)"
  using assms by (simp add: update_correlation_def get_correlation_def Let_def)

text \<open>The scheduler's own table is symmetric in the same way.\<close>

lemma get_path_correlation_sym: "get_path_correlation s i j = get_path_correlation s j i"
  by (simp add: get_path_correlation_def min.commute max.commute)

lemma get_path_correlation_self: "get_path_correlation s i i = 1"
  by (simp add: get_path_correlation_def)

text \<open>
  C9 at the scheduler.  A correlation update with \<open>rho = 5\<close> for the paths 0 and 1, on
  a fresh scheduler with the controller attached: the scheduler's table holds 5,
  outside \<open>[-1, 1]\<close>, while the controller's matrix, updated by the same call, holds 1.
\<close>

theorem scheduler_correlation_not_clamped:
  "get_path_correlation
     (fst (update_path_correlation 0 1 5
            (set_oco_controller PathScheduler_new, OCORedundancyController_new))) 0 1 = 5
   \<and> get_correlation
       (correlation_matrix
         (snd (update_path_correlation 0 1 5
                (set_oco_controller PathScheduler_new, OCORedundancyController_new)))) 0 1 = 1"
  by (simp add: get_path_correlation_def update_path_correlation_def PathScheduler_new_def
      set_oco_controller_def get_correlation_def update_loss_correlation_def
      update_correlation_def OCORedundancyController_new_def)

section \<open>Scheduler: what the selections depend on\<close>

lemma paths_update_weights [simp]: "paths (update_weights ex s) = paths s"
  by (simp add: update_weights_def Let_def)

lemma corr_update_weights [simp]:
  "path_correlations (update_weights ex s) = path_correlations s"
  by (simp add: update_weights_def Let_def)

lemma paths_update_path_state [simp]:
  "paths (update_path_state ex st s) = map_insert (ps_path_id st) st (paths s)"
  by (simp add: update_path_state_def Let_def)

lemma corr_update_path_state [simp]:
  "path_correlations (update_path_state ex st s) = path_correlations s"
  by (simp add: update_path_state_def Let_def)

lemma source_loop_mem: "snd (source_loop xs (s, p)) \<in> insert p (fst ` set xs)"
proof (induction xs arbitrary: s p)
  case Nil
  then show ?case by simp
next
  case (Cons x xs)
  obtain q st where x: "x = (q, st)" by (cases x)
  show ?case using Cons.IH[of _ q] Cons.IH[of s p] unfolding x
    by (auto simp add: Let_def)
qed


lemma select_source_path_registered:
  assumes "paths s \<noteq> []"
  shows "\<exists>q. select_source_path s = Inr q \<and> q \<in> fst ` set (paths s)"
proof -
  obtain q st rest where l: "paths s = (q, st) # rest"
    using assms by (cases "paths s") auto
  have "snd (source_loop (paths s) (- 1000000000, q)) \<in> insert q (fst ` set (paths s))"
    by (rule source_loop_mem)
  then show ?thesis by (auto simp add: select_source_path_def l)
qed

lemma sched_least_loop_mem:
  "snd (sched_least_loop s src ids (mc, p)) \<in> insert p (set ids)"
proof (induction ids arbitrary: mc p)
  case Nil
  then show ?case by simp
next
  case (Cons i ids)
  show ?case using Cons.IH[of _ i] Cons.IH[of mc p]
    by (auto simp add: Let_def)
qed

lemma sched_find_least_mem:
  "sched_find_least_correlated_path s src \<in> insert src (fst ` set (paths s))"
  using sched_least_loop_mem[of s src "map fst (paths s)" 2 src]
  by (auto simp add: sched_find_least_correlated_path_def)


lemma select_repair_path_registered:
  assumes "paths s \<noteq> []"
  shows "\<exists>q. select_repair_path s src = Inr q \<and> q \<in> insert src (fst ` set (paths s))"
proof -
  let ?others = "filter (\<lambda>path_id. path_id \<noteq> src) (map fst (paths s))"
  have o: "?others = o1 # os \<Longrightarrow> o1 \<in> fst ` set (paths s)" for o1 os
  proof -
    assume "?others = o1 # os"
    then have "o1 \<in> set ?others" by simp
    then show ?thesis by auto
  qed
  obtain q st rest where l: "paths s = (q, st) # rest"
    using assms by (cases "paths s") auto
  show ?thesis
  proof (cases rest)
    case Nil
    then show ?thesis by (simp add: select_repair_path_def l)
  next
    case (Cons r rs)
    have e: "select_repair_path s src =
               (let repair = sched_find_least_correlated_path s src
                in if repair = src
                   then (case ?others of [] \<Rightarrow> Inr repair | other # _ \<Rightarrow> Inr other)
                   else Inr repair)"
      by (simp add: select_repair_path_def l Cons split: prod.splits)
    show ?thesis
      unfolding e Let_def using sched_find_least_mem[of s src] o
      by (cases ?others) auto
  qed
qed







lemmas run_defs =
  run_sends_def with_paths_def emitted_def state_after_def MPQUICFECController_new_def
  FECGroupManager_new_def FECEncoder_new_def add_path_def create_new_group_def
  PathScheduler_new_def set_oco_controller_def send_stream_data_def
  get_next_packet_number_def on_packet_send_def add_source_packet_def Let_def
  perform_encoding_def encode_def get_encoded_group_def assign_packets_to_paths_def
  select_source_path_def select_repair_path_def assign_one_def is_source_frame_def
  wrap_source_frame_def FEC_SOURCE_FRAME_def FEC_REPAIR_FRAME_def add_mapping_def
  upt_conv_Cons sched_find_least_correlated_path_def get_path_correlation_def



section \<open>Controller: packet numbers\<close>

text \<open>
  C6 at a controller with \<open>k = 4\<close>, \<open>m = 2\<close>, blocks of 4 bytes and the one path 0.
  Four calls of \<open>send_stream_data\<close> from path 0 emit the six packets of the first group,
  all on path 0, with the packet numbers 5 to 10: each call drew one number of path 0 for
  \<open>fake_pkt_num\<close>, so the numbers 1 to 4 are never carried by a packet.
\<close>

theorem packet_numbers_skip:
  "emitted (run_sends scenario_blocks 0
      (with_paths [good_path] (MPQUICFECController_new 4 2 4)))
   = Some [(0, 5), (0, 6), (0, 7), (0, 8), (0, 9), (0, 10)]"
  by (simp add: run_defs scenario_blocks_def good_path_def)

text \<open>With FEC disabled the same four calls emit the packet numbers 1 to 4, one per call.\<close>

lemma packet_numbers_without_fec:
  "emitted (run_sends scenario_blocks 0
      (with_paths [good_path]
         (case MPQUICFECController_new 4 2 4 of
            Inl e \<Rightarrow> Inl e | Inr c \<Rightarrow> Inr (set_fec_enabled False c))))
   = Some [(0, 1), (0, 2), (0, 3), (0, 4)]"
  by (simp add: run_defs scenario_blocks_def good_path_def set_fec_enabled_def)

section \<open>Controller: what one send hands to the group manager\<close>

lemma assign_one_snd:
  "snd (assign_one src rep fr acc)
     = snd acc @ [\<lparr> meta_packet_number = fst (get_next_packet_number
                                               (if is_source_frame fr then src else rep) (fst acc)),
                     meta_path_id = (if is_source_frame fr then src else rep),
                     frame = fr, is_repair = (\<not> is_source_frame fr) \<rparr>]"
  by (cases acc) (simp add: assign_one_def Let_def case_prod_beta)

lemma assign_fold_frames:
  "map frame (snd (foldl (\<lambda>acc fr. assign_one src rep fr acc) acc frames))
     = map frame (snd acc) @ frames"
  by (induction frames arbitrary: acc) (simp_all add: assign_one_snd)

lemma assign_fold_repair:
  "map is_repair (snd (foldl (\<lambda>acc fr. assign_one src rep fr acc) acc frames))
     = map is_repair (snd acc) @ map (\<lambda>fr. \<not> is_source_frame fr) frames"
  by (induction frames arbitrary: acc) (simp_all add: assign_one_snd)

lemma encode_ok:
  assumes "length blocks = unat (enc_k e)"
    and "list_all (\<lambda>block. length block = unat (enc_block_size e)) blocks"
  shows "\<exists>parity. encode e blocks = Inr parity \<and> length parity = unat (enc_m e)"
  using assms by (simp add: encode_def)

lemma map_snd_zip_upt: "map snd (zip [0..<length xs] xs) = xs"
  by (simp add: map_snd_zip)

lemma map_over_zip_upt: "map (\<lambda>x. f (snd x)) (zip [0..<length xs] xs) = map f xs"
  by (rule nth_equalityI) simp_all

text \<open>
  What the send hook returns for the packet that completes a group of well-sized
  packets: the \<open>k\<close> source frames with the packets' data, then the repair frames with
  the parity blocks.
\<close>

lemma on_packet_send_completes:
  assumes k: "Suc (length (source_packets (current_group gm))) = unat (current_k gm)"
    and enc: "encoder gm = \<lparr> enc_k = current_k gm, enc_m = current_m gm,
                              enc_block_size = gm_block_size gm \<rparr>"
    and old: "list_all (\<lambda>p. length (data p) = unat (gm_block_size gm))
                (source_packets (current_group gm))"
    and new: "length bytes = unat (gm_block_size gm)"
    and gid: "eg_group_id (current_group gm) \<noteq> 0"
  shows "\<exists>frames gm' parity.
           on_packet_send True n origin bytes [] gm = Inr (True, frames, gm')
         \<and> encode (encoder gm) (map data (source_packets (current_group gm)) @ [bytes])
             = Inr parity
         \<and> length parity = unat (current_m gm)
         \<and> map payload frames = map data (source_packets (current_group gm)) @ [bytes] @ parity
         \<and> map (\<lambda>fr. frame_type (header fr)) frames
             = replicate (unat (current_k gm)) FEC_SOURCE_FRAME
               @ replicate (unat (current_m gm)) FEC_REPAIR_FRAME"
proof -
  let ?old = "source_packets (current_group gm)"
  let ?pkt = "\<lparr> packet_number = n, pp_path_id = origin, data = bytes \<rparr>"
  let ?g = "(current_group gm)\<lparr> source_packets := ?old @ [?pkt] \<rparr>"
  let ?blocks = "map data ?old @ [bytes]"
  have lb: "length ?blocks = unat (enc_k (encoder gm))" using k by (simp add: enc)
  have ab: "list_all (\<lambda>block. length block = unat (enc_block_size (encoder gm))) ?blocks"
    using old new by (simp add: enc list_all_iff)
  obtain parity where p: "encode (encoder gm) ?blocks = Inr parity"
    and lp: "length parity = unat (current_m gm)"
    using encode_ok[OF lb ab] by (auto simp add: enc)
  let ?rep = "map (\<lambda>(i, block).
                    \<lparr> header = \<lparr> frame_type = FEC_REPAIR_FRAME,
                                 group_id = eg_group_id ?g,
                                 block_index = current_k gm + of_nat i,
                                 total_blocks = current_k gm + current_m gm,
                                 payload_length = of_nat (length block) \<rparr>,
                      payload = block \<rparr>)
                 (zip [0..<length parity] parity)"
  let ?g' = "?g\<lparr> repair_frames := ?rep, is_encoded := True \<rparr>"
  have pe: "perform_encoding gm ?g = Inr ?g'"
    using p by (simp add: perform_encoding_def)
  have full: "length (source_packets ?g) \<ge> unat (current_k gm)" using k by simp
  let ?gm1 = "gm\<lparr> encoded_groups := (encoded_groups gm)(eg_group_id ?g \<mapsto> ?g') \<rparr>"
  let ?gm2 = "(snd (create_new_group ?gm1))\<lparr> current_group := fst (create_new_group ?gm1) \<rparr>"
  have asp: "add_source_packet ?pkt gm = Inr (eg_group_id (current_group gm), ?gm2)"
    using pe full by (simp add: add_source_packet_def Let_def case_prod_beta)
  have pos: "eg_group_id (current_group gm) > 0" using gid by (simp add: word_gt_0)
  have look: "get_encoded_group ?gm2 (eg_group_id (current_group gm)) = Some ?g'"
    by (simp add: get_encoded_group_def create_new_group_def)
  let ?src = "map (\<lambda>(i, p). wrap_source_frame (eg_group_id ?g') (of_nat i)
                               (gi_k (eg_info ?g') + gi_m (eg_info ?g')) (data p))
                 (zip [0..<length (source_packets ?g')] (source_packets ?g'))"
  have ops: "on_packet_send True n origin bytes [] gm = Inr (True, ?src @ ?rep, ?gm2)"
    using asp pos look by (simp add: on_packet_send_def Let_def)
  have psrc: "map payload ?src = map data (?old @ [?pkt])"
    using map_over_zip_upt[of data "?old @ [?pkt]"]
    by (simp add: wrap_source_frame_def case_prod_beta comp_def)
  have prep: "map payload ?rep = parity"
    using map_over_zip_upt[of "\<lambda>b. b" parity]
    by (simp add: case_prod_beta comp_def)
  have tsrc: "map (\<lambda>fr. frame_type (header fr)) ?src
                = replicate (unat (current_k gm)) FEC_SOURCE_FRAME"
    using k by (simp add: wrap_source_frame_def case_prod_beta comp_def map_replicate_const
        del: upt_Suc replicate_Suc)
  have trep: "map (\<lambda>fr. frame_type (header fr)) ?rep
                = replicate (unat (current_m gm)) FEC_REPAIR_FRAME"
    using lp by (simp add: case_prod_beta comp_def map_replicate_const)
  show ?thesis
    using ops p lp psrc prep tsrc trep by (intro exI[of _ "?src @ ?rep"] exI[of _ ?gm2] exI[of _ parity]) simp
qed

lemma send_accumulates:
  assumes en: "fec_enabled c" "hook_fec_enabled c"
    and room: "Suc (length (source_packets (current_group (group_manager c))))
                 < unat (current_k (group_manager c))"
  shows "\<exists>n c'. send_stream_data u bytes origin c = Inr ([], c')
           \<and> source_packets (current_group (group_manager c'))
               = source_packets (current_group (group_manager c))
                 @ [\<lparr> packet_number = n, pp_path_id = origin, data = bytes \<rparr>]"
  using en room
  by (simp add: send_stream_data_def get_next_packet_number_def on_packet_send_def
      add_source_packet_def Let_def)

lemma send_completes:
  assumes en: "fec_enabled c" "hook_fec_enabled c"
    and k: "Suc (length (source_packets (current_group (group_manager c))))
              = unat (current_k (group_manager c))"
    and enc: "encoder (group_manager c)
                = \<lparr> enc_k = current_k (group_manager c), enc_m = current_m (group_manager c),
                    enc_block_size = gm_block_size (group_manager c) \<rparr>"
    and old: "list_all (\<lambda>p. length (data p) = unat (gm_block_size (group_manager c)))
                (source_packets (current_group (group_manager c)))"
    and new: "length bytes = unat (gm_block_size (group_manager c))"
    and gid: "eg_group_id (current_group (group_manager c)) \<noteq> 0"
    and ps: "paths (path_scheduler c) \<noteq> []"
  shows "\<exists>out c' parity.
           send_stream_data u bytes origin c = Inr (out, c')
         \<and> encode (encoder (group_manager c))
              (map data (source_packets (current_group (group_manager c))) @ [bytes]) = Inr parity
         \<and> map (\<lambda>p. payload (frame p)) out
             = map data (source_packets (current_group (group_manager c))) @ [bytes] @ parity
         \<and> map (\<lambda>p. frame_type (header (frame p))) out
             = replicate (unat (current_k (group_manager c))) FEC_SOURCE_FRAME
               @ replicate (unat (current_m (group_manager c))) FEC_REPAIR_FRAME"
proof -
  let ?gm = "group_manager c"
  obtain n c1 where g: "get_next_packet_number origin c = (n, c1)"
    by (cases "get_next_packet_number origin c")
  have c1: "group_manager c1 = ?gm" "hook_fec_enabled c1" "path_scheduler c1 = path_scheduler c"
    using g en by (auto simp add: get_next_packet_number_def Let_def)
  obtain frames gm' parity where
    ops: "on_packet_send True (n - 1) origin bytes [] ?gm = Inr (True, frames, gm')"
    and par: "encode (encoder ?gm) (map data (source_packets (current_group ?gm)) @ [bytes])
                = Inr parity"
    and pay: "map payload frames
                = map data (source_packets (current_group ?gm)) @ [bytes] @ parity"
    and tys: "map (\<lambda>fr. frame_type (header fr)) frames
                = replicate (unat (current_k ?gm)) FEC_SOURCE_FRAME
                  @ replicate (unat (current_m ?gm)) FEC_REPAIR_FRAME"
    using on_packet_send_completes[OF k enc old new gid, of "n - 1" origin] by blast
  have ne: "frames \<noteq> []" using pay by auto
  obtain src where src: "select_source_path (path_scheduler c) = Inr src"
    using select_source_path_registered[OF ps] by blast
  obtain rep where rep: "select_repair_path (path_scheduler c) src = Inr rep"
    using select_repair_path_registered[OF ps] by blast
  let ?c2 = "c1\<lparr> group_manager := gm' \<rparr>"
  let ?acc = "foldl (\<lambda>acc fr. assign_one src rep fr acc) (?c2, []) frames"
  have asg: "assign_packets_to_paths frames (?c2, []) = Inr ?acc"
    using src rep c1 by (simp add: assign_packets_to_paths_def)
  have fr: "map frame (snd ?acc) = frames"
    using assign_fold_frames[of src rep "(?c2, [])" frames] by simp
  have send: "send_stream_data u bytes origin c
                = Inr (snd ?acc,
                       (fst ?acc)\<lparr> stats := (stats (fst ?acc))\<lparr> fec_groups_created :=
                                        fec_groups_created (stats (fst ?acc)) + 1 \<rparr> \<rparr>)"
    using en g c1 ops ne asg
    by (simp add: send_stream_data_def Let_def case_prod_beta)
  have p1: "map (\<lambda>p. payload (frame p)) (snd ?acc)
              = map data (source_packets (current_group ?gm)) @ [bytes] @ parity"
  proof -
    have "map (\<lambda>p. payload (frame p)) (snd ?acc) = map payload (map frame (snd ?acc))"
      by (simp add: comp_def)
    then show ?thesis by (simp only: fr pay)
  qed
  have p2: "map (\<lambda>p. frame_type (header (frame p))) (snd ?acc)
              = replicate (unat (current_k ?gm)) FEC_SOURCE_FRAME
                @ replicate (unat (current_m ?gm)) FEC_REPAIR_FRAME"
  proof -
    have "map (\<lambda>p. frame_type (header (frame p))) (snd ?acc)
            = map (\<lambda>fr. frame_type (header fr)) (map frame (snd ?acc))"
      by (simp add: comp_def)
    then show ?thesis by (simp only: fr tys)
  qed
  from send par p1 p2 show ?thesis by blast
qed

text \<open>The same call on a controller without a registered path.\<close>

lemma send_completes_without_paths:
  assumes en: "fec_enabled c" "hook_fec_enabled c"
    and k: "Suc (length (source_packets (current_group (group_manager c))))
              = unat (current_k (group_manager c))"
    and enc: "encoder (group_manager c)
                = \<lparr> enc_k = current_k (group_manager c), enc_m = current_m (group_manager c),
                    enc_block_size = gm_block_size (group_manager c) \<rparr>"
    and old: "list_all (\<lambda>p. length (data p) = unat (gm_block_size (group_manager c)))
                (source_packets (current_group (group_manager c)))"
    and new: "length bytes = unat (gm_block_size (group_manager c))"
    and gid: "eg_group_id (current_group (group_manager c)) \<noteq> 0"
    and ps: "paths (path_scheduler c) = []"
  shows "send_stream_data u bytes origin c = Inl NoPathsAvailable"
proof -
  let ?gm = "group_manager c"
  obtain n c1 where g: "get_next_packet_number origin c = (n, c1)"
    by (cases "get_next_packet_number origin c")
  have c1: "group_manager c1 = ?gm" "hook_fec_enabled c1" "path_scheduler c1 = path_scheduler c"
    using g en by (auto simp add: get_next_packet_number_def Let_def)
  obtain frames gm' parity where
    ops: "on_packet_send True (n - 1) origin bytes [] ?gm = Inr (True, frames, gm')"
    and pay: "map payload frames
                = map data (source_packets (current_group ?gm)) @ [bytes] @ parity"
    using on_packet_send_completes[OF k enc old new gid, of "n - 1" origin] by blast
  have ne: "frames \<noteq> []" using pay by auto
  have "select_source_path (path_scheduler c) = Inl NoPathsAvailable"
    using ps by (simp add: select_source_path_def)
  then have asg: "assign_packets_to_paths frames (c1\<lparr> group_manager := gm' \<rparr>, [])
                    = Inl NoPathsAvailable"
    using c1 by (simp add: assign_packets_to_paths_def)
  show ?thesis
    using en g c1 ops ne asg
    by (simp add: send_stream_data_def Let_def case_prod_beta)
qed

text \<open>
  C2 as the code has it, with FEC enabled.  A call that leaves the current group short
  of \<open>k\<close> packets emits nothing and appends one packet whose data is the whole payload.
  The call that brings a group of block-sized packets to \<open>k\<close> needs a registered path:
  with one, it emits \<open>k\<close> source frames, whose payloads are the payloads of the \<open>k\<close>
  calls as they were given, followed by \<open>m\<close> repair frames with the parity blocks of
  \<open>encode\<close>; with none, it fails with \<open>NoPathsAvailable\<close> and emits nothing.
\<close>

theorem send_stream_data_whole_payload:
  assumes "fec_enabled c" and "hook_fec_enabled c"
  shows
    "(Suc (length (source_packets (current_group (group_manager c))))
        < unat (current_k (group_manager c))
      \<longrightarrow> (\<exists>n c'. send_stream_data u bytes origin c = Inr ([], c')
             \<and> source_packets (current_group (group_manager c'))
                 = source_packets (current_group (group_manager c))
                   @ [\<lparr> packet_number = n, pp_path_id = origin, data = bytes \<rparr>]))
   \<and> (Suc (length (source_packets (current_group (group_manager c))))
        = unat (current_k (group_manager c))
      \<and> encoder (group_manager c)
          = \<lparr> enc_k = current_k (group_manager c), enc_m = current_m (group_manager c),
              enc_block_size = gm_block_size (group_manager c) \<rparr>
      \<and> list_all (\<lambda>p. length (data p) = unat (gm_block_size (group_manager c)))
           (source_packets (current_group (group_manager c)))
      \<and> length bytes = unat (gm_block_size (group_manager c))
      \<and> eg_group_id (current_group (group_manager c)) \<noteq> 0
      \<and> paths (path_scheduler c) \<noteq> []
      \<longrightarrow> (\<exists>out c' parity.
             send_stream_data u bytes origin c = Inr (out, c')
           \<and> encode (encoder (group_manager c))
                (map data (source_packets (current_group (group_manager c))) @ [bytes])
               = Inr parity
           \<and> map (\<lambda>p. payload (frame p)) out
               = map data (source_packets (current_group (group_manager c))) @ [bytes] @ parity
           \<and> map (\<lambda>p. frame_type (header (frame p))) out
               = replicate (unat (current_k (group_manager c))) FEC_SOURCE_FRAME
                 @ replicate (unat (current_m (group_manager c))) FEC_REPAIR_FRAME))
   \<and> (Suc (length (source_packets (current_group (group_manager c))))
        = unat (current_k (group_manager c))
      \<and> encoder (group_manager c)
          = \<lparr> enc_k = current_k (group_manager c), enc_m = current_m (group_manager c),
              enc_block_size = gm_block_size (group_manager c) \<rparr>
      \<and> list_all (\<lambda>p. length (data p) = unat (gm_block_size (group_manager c)))
           (source_packets (current_group (group_manager c)))
      \<and> length bytes = unat (gm_block_size (group_manager c))
      \<and> eg_group_id (current_group (group_manager c)) \<noteq> 0
      \<and> paths (path_scheduler c) = []
      \<longrightarrow> send_stream_data u bytes origin c = Inl NoPathsAvailable)"
  using assms send_accumulates send_completes send_completes_without_paths by blast

theorem send_stream_data_whole_payload_witness:
  "(\<exists>c0. with_paths [good_path] (MPQUICFECController_new 4 2 1200) = Inr c0
      \<and> (\<exists>n c'. send_stream_data (header wire_frame) (replicate 3000 7) 0 c0 = Inr ([], c')
             \<and> source_packets (current_group (group_manager c'))
                 = [\<lparr> packet_number = n, pp_path_id = 0, data = replicate 3000 7 \<rparr>]))
   \<and> (\<exists>c3. state_after (run_sends [[1, 2, 3, 4], [5, 6, 7, 8], [9, 10, 11, 12]] 0
                 (with_paths [good_path] (MPQUICFECController_new 4 2 4))) = Some c3
      \<and> (\<exists>out c' parity.
             send_stream_data (header wire_frame) [13, 14, 15, 16] 0 c3 = Inr (out, c')
           \<and> map (\<lambda>p. payload (frame p)) out = scenario_blocks @ parity
           \<and> map (\<lambda>p. frame_type (header (frame p))) out
               = [FEC_SOURCE_FRAME, FEC_SOURCE_FRAME, FEC_SOURCE_FRAME, FEC_SOURCE_FRAME,
                  FEC_REPAIR_FRAME, FEC_REPAIR_FRAME]))
   \<and> (\<exists>c. MPQUICFECController_new 1 1 2 = Inr c
          \<and> send_stream_data (header wire_frame) [1, 2] 0 c = Inl NoPathsAvailable)"
proof -
  have "\<exists>c0. with_paths [good_path] (MPQUICFECController_new 4 2 1200) = Inr c0
          \<and> fec_enabled c0 \<and> hook_fec_enabled c0
          \<and> source_packets (current_group (group_manager c0)) = []
          \<and> current_k (group_manager c0) = 4"
    by (simp add: run_defs)
  then obtain c0 where h0: "with_paths [good_path] (MPQUICFECController_new 4 2 1200) = Inr c0
          \<and> fec_enabled c0 \<and> hook_fec_enabled c0
          \<and> source_packets (current_group (group_manager c0)) = []
          \<and> current_k (group_manager c0) = 4" ..
  then have c0: "with_paths [good_path] (MPQUICFECController_new 4 2 1200) = Inr c0"
    "fec_enabled c0" "hook_fec_enabled c0"
    "source_packets (current_group (group_manager c0)) = []"
    "current_k (group_manager c0) = 4"
    by simp_all
  have room: "Suc (length (source_packets (current_group (group_manager c0))))
                < unat (current_k (group_manager c0))"
    by (simp add: c0)
  from send_stream_data_whole_payload [OF c0(2) c0(3), of "header wire_frame" "replicate 3000 7" 0]
    room
  have a: "\<exists>n c'. send_stream_data (header wire_frame) (replicate 3000 7) 0 c0 = Inr ([], c')
             \<and> source_packets (current_group (group_manager c'))
                 = [\<lparr> packet_number = n, pp_path_id = 0, data = replicate 3000 7 \<rparr>]"
    by (simp only: c0(4) append_Nil)
  let ?R = "run_sends [[1, 2, 3, 4], [5, 6, 7, 8], [9, 10, 11, 12]] 0
              (with_paths [good_path] (MPQUICFECController_new 4 2 4))"
  have "\<exists>c3. state_after ?R = Some c3
          \<and> fec_enabled c3 \<and> hook_fec_enabled c3
          \<and> map data (source_packets (current_group (group_manager c3)))
              = [[1, 2, 3, 4], [5, 6, 7, 8], [9, 10, 11, 12]]
          \<and> current_k (group_manager c3) = 4
          \<and> current_m (group_manager c3) = 2
          \<and> gm_block_size (group_manager c3) = 4
          \<and> encoder (group_manager c3) = \<lparr> enc_k = 4, enc_m = 2, enc_block_size = 4 \<rparr>
          \<and> eg_group_id (current_group (group_manager c3)) = 1
          \<and> paths (path_scheduler c3) = [(0, good_path)]"
    by (simp add: run_defs good_path_def)
  then obtain c3 where h3: "state_after ?R = Some c3
          \<and> fec_enabled c3 \<and> hook_fec_enabled c3
          \<and> map data (source_packets (current_group (group_manager c3)))
              = [[1, 2, 3, 4], [5, 6, 7, 8], [9, 10, 11, 12]]
          \<and> current_k (group_manager c3) = 4
          \<and> current_m (group_manager c3) = 2
          \<and> gm_block_size (group_manager c3) = 4
          \<and> encoder (group_manager c3) = \<lparr> enc_k = 4, enc_m = 2, enc_block_size = 4 \<rparr>
          \<and> eg_group_id (current_group (group_manager c3)) = 1
          \<and> paths (path_scheduler c3) = [(0, good_path)]" ..
  then have c3: "state_after ?R = Some c3"
    "fec_enabled c3" "hook_fec_enabled c3"
    "map data (source_packets (current_group (group_manager c3)))
       = [[1, 2, 3, 4], [5, 6, 7, 8], [9, 10, 11, 12]]"
    "current_k (group_manager c3) = 4"
    "current_m (group_manager c3) = 2"
    "gm_block_size (group_manager c3) = 4"
    "encoder (group_manager c3) = \<lparr> enc_k = 4, enc_m = 2, enc_block_size = 4 \<rparr>"
    "eg_group_id (current_group (group_manager c3)) = 1"
    "paths (path_scheduler c3) = [(0, good_path)]"
    by simp_all
  have len: "length (source_packets (current_group (group_manager c3))) = 3"
    using arg_cong[OF c3(4), of length] by simp
  have sizes: "list_all (\<lambda>p. length (data p) = 4) (source_packets (current_group (group_manager c3)))"
  proof -
    have "list_all (\<lambda>b. length b = 4)
            (map data (source_packets (current_group (group_manager c3))))"
      unfolding c3(4) by simp
    then show ?thesis by (simp add: list_all_iff)
  qed
  have hyp: "Suc (length (source_packets (current_group (group_manager c3))))
               = unat (current_k (group_manager c3))
      \<and> encoder (group_manager c3)
          = \<lparr> enc_k = current_k (group_manager c3), enc_m = current_m (group_manager c3),
              enc_block_size = gm_block_size (group_manager c3) \<rparr>
      \<and> list_all (\<lambda>p. length (data p) = unat (gm_block_size (group_manager c3)))
           (source_packets (current_group (group_manager c3)))
      \<and> length [13, 14, 15, 16 :: u8] = unat (gm_block_size (group_manager c3))
      \<and> eg_group_id (current_group (group_manager c3)) \<noteq> 0
      \<and> paths (path_scheduler c3) \<noteq> []"
    using sizes by (simp add: c3 len)
  have "\<exists>out c' parity.
             send_stream_data (header wire_frame) [13, 14, 15, 16] 0 c3 = Inr (out, c')
           \<and> encode (encoder (group_manager c3))
                (map data (source_packets (current_group (group_manager c3))) @ [[13, 14, 15, 16]])
               = Inr parity
           \<and> map (\<lambda>p. payload (frame p)) out
               = map data (source_packets (current_group (group_manager c3)))
                 @ [[13, 14, 15, 16]] @ parity
           \<and> map (\<lambda>p. frame_type (header (frame p))) out
               = replicate (unat (current_k (group_manager c3))) FEC_SOURCE_FRAME
                 @ replicate (unat (current_m (group_manager c3))) FEC_REPAIR_FRAME"
    using send_stream_data_whole_payload
            [OF c3(2) c3(3), of "header wire_frame" "[13, 14, 15, 16]" 0,
             THEN conjunct2, THEN conjunct1]
          hyp
    by (rule mp)
  then obtain out c' parity where r:
    "send_stream_data (header wire_frame) [13, 14, 15, 16] 0 c3 = Inr (out, c')
     \<and> encode (encoder (group_manager c3))
          (map data (source_packets (current_group (group_manager c3))) @ [[13, 14, 15, 16]])
         = Inr parity
     \<and> map (\<lambda>p. payload (frame p)) out
         = map data (source_packets (current_group (group_manager c3)))
           @ [[13, 14, 15, 16]] @ parity
     \<and> map (\<lambda>p. frame_type (header (frame p))) out
         = replicate (unat (current_k (group_manager c3))) FEC_SOURCE_FRAME
           @ replicate (unat (current_m (group_manager c3))) FEC_REPAIR_FRAME"
    by (elim exE)
  have b: "\<exists>out c' parity.
             send_stream_data (header wire_frame) [13, 14, 15, 16] 0 c3 = Inr (out, c')
           \<and> map (\<lambda>p. payload (frame p)) out = scenario_blocks @ parity
           \<and> map (\<lambda>p. frame_type (header (frame p))) out
               = [FEC_SOURCE_FRAME, FEC_SOURCE_FRAME, FEC_SOURCE_FRAME, FEC_SOURCE_FRAME,
                  FEC_REPAIR_FRAME, FEC_REPAIR_FRAME]"
  proof -
    have rr: "replicate 4 a = [a, a, a, a]" "replicate 2 a = [a, a]" for a :: u8
      by (simp_all add: numeral_eq_Suc)
    show ?thesis
      using r by (intro exI[of _ out] exI[of _ c'] exI[of _ parity])
        (simp add: c3 scenario_blocks_def rr)
  qed
  from c0(1) a have A: "\<exists>c0. with_paths [good_path] (MPQUICFECController_new 4 2 1200) = Inr c0
      \<and> (\<exists>n c'. send_stream_data (header wire_frame) (replicate 3000 7) 0 c0 = Inr ([], c')
             \<and> source_packets (current_group (group_manager c'))
                 = [\<lparr> packet_number = n, pp_path_id = 0, data = replicate 3000 7 \<rparr>])"
    by (intro exI[of _ c0] conjI)
  from c3(1) b have B: "\<exists>c3. state_after ?R = Some c3
      \<and> (\<exists>out c' parity.
             send_stream_data (header wire_frame) [13, 14, 15, 16] 0 c3 = Inr (out, c')
           \<and> map (\<lambda>p. payload (frame p)) out = scenario_blocks @ parity
           \<and> map (\<lambda>p. frame_type (header (frame p))) out
               = [FEC_SOURCE_FRAME, FEC_SOURCE_FRAME, FEC_SOURCE_FRAME, FEC_SOURCE_FRAME,
                  FEC_REPAIR_FRAME, FEC_REPAIR_FRAME])"
    by (intro exI[of _ c3] conjI)
  have "\<exists>c. MPQUICFECController_new 1 1 2 = Inr c \<and> fec_enabled c \<and> hook_fec_enabled c
     \<and> source_packets (current_group (group_manager c)) = []
     \<and> current_k (group_manager c) = 1 \<and> current_m (group_manager c) = 1
     \<and> gm_block_size (group_manager c) = 2
     \<and> encoder (group_manager c) = \<lparr> enc_k = 1, enc_m = 1, enc_block_size = 2 \<rparr>
     \<and> eg_group_id (current_group (group_manager c)) = 1
     \<and> paths (path_scheduler c) = []"
    by (simp add: run_defs)
  then obtain c9 where h9: "MPQUICFECController_new 1 1 2 = Inr c9 \<and> fec_enabled c9
     \<and> hook_fec_enabled c9
     \<and> source_packets (current_group (group_manager c9)) = []
     \<and> current_k (group_manager c9) = 1 \<and> current_m (group_manager c9) = 1
     \<and> gm_block_size (group_manager c9) = 2
     \<and> encoder (group_manager c9) = \<lparr> enc_k = 1, enc_m = 1, enc_block_size = 2 \<rparr>
     \<and> eg_group_id (current_group (group_manager c9)) = 1
     \<and> paths (path_scheduler c9) = []" ..
  then have c9: "MPQUICFECController_new 1 1 2 = Inr c9" "fec_enabled c9" "hook_fec_enabled c9"
    "source_packets (current_group (group_manager c9)) = []"
    "current_k (group_manager c9) = 1" "current_m (group_manager c9) = 1"
    "gm_block_size (group_manager c9) = 2"
    "encoder (group_manager c9) = \<lparr> enc_k = 1, enc_m = 1, enc_block_size = 2 \<rparr>"
    "eg_group_id (current_group (group_manager c9)) = 1"
    "paths (path_scheduler c9) = []"
    by simp_all
  have hyp9: "Suc (length (source_packets (current_group (group_manager c9))))
               = unat (current_k (group_manager c9))
      \<and> encoder (group_manager c9)
          = \<lparr> enc_k = current_k (group_manager c9), enc_m = current_m (group_manager c9),
              enc_block_size = gm_block_size (group_manager c9) \<rparr>
      \<and> list_all (\<lambda>p. length (data p) = unat (gm_block_size (group_manager c9)))
           (source_packets (current_group (group_manager c9)))
      \<and> length [1, 2 :: u8] = unat (gm_block_size (group_manager c9))
      \<and> eg_group_id (current_group (group_manager c9)) \<noteq> 0
      \<and> paths (path_scheduler c9) = []"
    by (simp add: c9)
  have "send_stream_data (header wire_frame) [1, 2] 0 c9 = Inl NoPathsAvailable"
    using send_stream_data_whole_payload
            [OF c9(2) c9(3), of "header wire_frame" "[1, 2]" 0, THEN conjunct2, THEN conjunct2]
          hyp9
    by (rule mp)
  with c9(1) have C: "\<exists>c. MPQUICFECController_new 1 1 2 = Inr c
          \<and> send_stream_data (header wire_frame) [1, 2] 0 c = Inl NoPathsAvailable"
    by (intro exI[of _ c9] conjI)
  from A B C show ?thesis by (intro conjI)
qed

text \<open>
  The padding scenario of the specification: 3000 bytes, blocks of 1200 bytes, \<open>k = 4\<close>.
  The call emits nothing, and the current group then holds one packet of 3000 bytes:
  the payload was neither cut into blocks of 1200 bytes nor padded.
\<close>

theorem payload_not_sliced:
  "emitted (run_sends [replicate 3000 7] 0
      (with_paths [good_path] (MPQUICFECController_new 4 2 1200))) = Some []
   \<and> (\<exists>c'. state_after (run_sends [replicate 3000 7] 0
                (with_paths [good_path] (MPQUICFECController_new 4 2 1200))) = Some c'
          \<and> map (\<lambda>p. length (data p)) (source_packets (current_group (group_manager c')))
              = [3000])"
  by (simp add: run_defs)

section \<open>Receive hook: the inferred decode threshold\<close>

lemma map_insert_keys: "fst ` set (map_insert k v xs) = insert k (fst ` set xs)"
proof (induction k v xs rule: map_insert.induct)
  case (1 k v)
  show ?case by simp
next
  case (2 k v k' v' xs)
  show ?case
  proof (cases "k < k'")
    case True
    then show ?thesis by simp
  next
    case False
    show ?thesis
    proof (cases "k = k'")
      case True
      then show ?thesis by simp
    next
      case ne: False
      have "fst ` set (map_insert k v xs) = insert k (fst ` set xs)"
        using 2 False ne by simp
      then show ?thesis using False ne by auto
    qed
  qed
qed

lemma map_insert_sorted:
  assumes "sorted_wrt (<) (map fst xs)"
  shows "sorted_wrt (<) (map fst (map_insert k v xs))"
  using assms
proof (induction k v xs rule: map_insert.induct)
  case (1 k v)
  show ?case by simp
next
  case (2 k v k' v' xs)
  have above: "\<forall>y \<in> fst ` set xs. k' < y" and tl: "sorted_wrt (<) (map fst xs)"
    using "2.prems" by auto
  show ?case
  proof (cases "k < k'")
    case True
    have "\<forall>y \<in> fst ` set xs. k < y" using above True by auto
    then show ?thesis using True above tl by auto
  next
    case False
    show ?thesis
    proof (cases "k = k'")
      case True
      then show ?thesis using above tl by auto
    next
      case ne: False
      have lt: "k' < k" using False ne by simp
      have ih: "sorted_wrt (<) (map fst (map_insert k v xs))"
        using "2.IH" False ne tl by simp
      have "\<forall>y \<in> fst ` set (map_insert k v xs). k' < y"
        unfolding map_insert_keys using above lt by simp
      then show ?thesis using False ne ih by auto
    qed
  qed
qed

lemma collect_sources_length:
  "length (collect_sources k xs acc) \<le> max (length acc) (unat k)"
proof (induction xs arbitrary: acc)
  case Nil
  then show ?case by simp
next
  case (Cons x xs)
  obtain b i where x: "x = (b, i)" by (cases x)
  show ?case using Cons.IH[of "acc @ [b]"] Cons.IH[of acc] unfolding x
    by (auto simp add: max_def split: if_splits)
qed

lemma decode_ok:
  assumes "unat (dec_k d) \<le> length blocks" and "length blocks = length ids"
  shows "\<exists>out. decode d blocks ids = Inr out \<and> length out = unat (dec_k d)"
proof -
  have "length (collect_sources (dec_k d) (zip blocks ids) []) \<le> unat (dec_k d)"
    using collect_sources_length[of "dec_k d" "zip blocks ids" "[]"] by simp
  then show ?thesis using assms by (simp add: decode_def Let_def)
qed

lemma inferred_k_unat:
  assumes "unat (t :: u32) < 2 ^ 31"
  shows "unat ((t * 2) div 3) = (2 * unat t) div 3"
proof -
  have "unat t * unat (2 :: u32) < 2 ^ LENGTH(32)" using assms by simp
  then have "unat (t * 2) = unat t * unat (2 :: u32)" by (simp only: unat_mult_lem)
  then show ?thesis by (simp add: unat_div mult.commute)
qed

lemma ascending_card:
  assumes "sorted_wrt (<) (map fst (xs :: (u32 \<times> 'a) list))"
  shows "card (fst ` set xs) = length xs"
proof -
  have "distinct (map fst xs)" using assms by (simp add: strict_sorted_iff)
  then have "card (set (map fst xs)) = length (map fst xs)" by (rule distinct_card)
  then show ?thesis by simp
qed

lemma try_decode_group_complete:
  assumes "received_groups rh gid = Some g" and "is_complete g"
  shows "try_decode_group gid rh = ([], rh)"
  using assms by (simp add: try_decode_group_def group_at_def)

lemma try_decode_group_decodes:
  assumes cache: "\<forall>k m d. decoders rh (k, m) = Some d \<longrightarrow> dec_k d = k"
    and g: "received_groups rh gid = Some g"
    and enough: "unat (gi_k (rg_info g)) \<le> length (received_frames g)"
    and nc: "\<not> is_complete g"
  shows "\<exists>out d.
           d = (case decoders rh (gi_k (rg_info g), gi_m (rg_info g)) of
                  Some d \<Rightarrow> d
                | None \<Rightarrow> FECDecoder_new (gi_k (rg_info g)) (gi_m (rg_info g))
                            (gi_block_size (rg_info g)))
         \<and> dec_k d = gi_k (rg_info g)
         \<and> decode d (map (\<lambda>(block_idx, fr). payload fr) (received_frames g))
              (map fst (received_frames g)) = Inr out
         \<and> length out = unat (gi_k (rg_info g))
         \<and> try_decode_group gid rh
             = (out, rh\<lparr> decoders := (decoders rh)((gi_k (rg_info g), gi_m (rg_info g)) \<mapsto> d),
                          received_groups :=
                            (received_groups rh)(gid \<mapsto> g\<lparr> is_complete := True \<rparr>) \<rparr>)"
proof -
  let ?key = "(gi_k (rg_info g), gi_m (rg_info g))"
  let ?d = "case decoders rh ?key of
              Some d \<Rightarrow> d
            | None \<Rightarrow> FECDecoder_new (gi_k (rg_info g)) (gi_m (rg_info g))
                        (gi_block_size (rg_info g))"
  have dk: "dec_k ?d = gi_k (rg_info g)"
    using cache by (auto simp add: FECDecoder_new_def split: option.splits)
  let ?blocks = "map (\<lambda>(block_idx, fr). payload fr) (received_frames g)"
  let ?ids = "map fst (received_frames g)"
  obtain out where out: "decode ?d ?blocks ?ids = Inr out" "length out = unat (dec_k ?d)"
    using decode_ok[of ?d ?blocks ?ids] enough dk by auto
  have "try_decode_group gid rh
          = (out, rh\<lparr> decoders := (decoders rh)(?key \<mapsto> ?d),
                       received_groups := (received_groups rh)(gid \<mapsto> g\<lparr> is_complete := True \<rparr>) \<rparr>)"
    using g nc out(1) by (simp add: try_decode_group_def group_at_def Let_def)
  with dk out show ?thesis by simp
qed


lemma hook_sound_new: "hook_sound PacketReceiveHook_new"
  by (simp add: hook_sound_def PacketReceiveHook_new_def)

text \<open>
  C10.  The new hook is sound: the frames of every group ascend strictly by block index,
  as the keys of a \<^verbatim>\<open>std::map\<close> do, and the decoder cache files every decoder under
  its own \<open>k\<close>.  For a frame \<open>f\<close> delivered to any receive hook:
  \<^item> if the hook does not know the group, the group's \<open>k\<close> becomes
    \<open>(total_blocks \<cdot> 2) div 3\<close> and its \<open>m\<close> the rest, whatever \<open>k\<close> the sender used; for
    a sender's \<open>k + m\<close> below \<open>2 ^ 31\<close> that is \<open>\<lfloor>2 (k + m) / 3\<rfloor>\<close>, so a sender's \<open>k\<close> that
    differs from it is not the receiver's threshold;
  \<^item> once a group has its info (a nonzero \<open>info.group_id\<close>), later frames leave it
    unchanged;
  \<^item> the frame's index joins the set of received indices;
  \<^item> on a sound hook the hook stays sound, and the number of distinct indices received
    decides the call: below the inferred \<open>k\<close> nothing is returned and the group stays as
    complete as it was; at or above it, a group already complete returns nothing, and a
    group not yet complete is closed and the call returns what \<open>decode\<close> makes of the
    payloads of all received frames, in ascending order of their indices, with the
    cached decoder for the inferred \<open>(k, m)\<close> or a new one.
\<close>

theorem receiver_infers_threshold:
  "hook_sound PacketReceiveHook_new
   \<and> (let gid = group_id (header f);
           g0 = group_at rh gid;
           r = on_frame_received f rh;
           g' = group_at (snd r) gid;
           k' = gi_k (rg_info g');
           n' = card (fst ` set (received_frames g'));
           d = (case decoders rh (gi_k (rg_info g'), gi_m (rg_info g')) of
                  Some d \<Rightarrow> d
                | None \<Rightarrow> FECDecoder_new (gi_k (rg_info g')) (gi_m (rg_info g'))
                            (gi_block_size (rg_info g')))
       in (received_groups rh gid = None \<longrightarrow>
             k' = (total_blocks (header f) * 2) div 3
           \<and> gi_m (rg_info g') = total_blocks (header f) - (total_blocks (header f) * 2) div 3
           \<and> (\<forall>k m. total_blocks (header f) = k + m \<and> unat k + unat m < 2 ^ 31
                      \<and> unat k \<noteq> (2 * (unat k + unat m)) div 3
                 \<longrightarrow> k' \<noteq> k))
        \<and> (gi_group_id (rg_info g0) \<noteq> 0 \<longrightarrow> rg_info g' = rg_info g0)
        \<and> fst ` set (received_frames g')
            = insert (block_index (header f)) (fst ` set (received_frames g0))
        \<and> (hook_sound rh \<longrightarrow>
              hook_sound (snd r)
            \<and> (n' < unat k' \<longrightarrow> fst r = [] \<and> (is_complete g' \<longleftrightarrow> is_complete g0))
            \<and> (unat k' \<le> n' \<and> is_complete g0 \<longrightarrow> fst r = [] \<and> is_complete g')
            \<and> (unat k' \<le> n' \<and> \<not> is_complete g0 \<longrightarrow>
                  is_complete g'
                \<and> decode d (map (\<lambda>(block_idx, fr). payload fr) (received_frames g'))
                     (map fst (received_frames g')) = Inr (fst r)
                \<and> length (fst r) = unat k')))"
proof -
  define gid where "gid = group_id (header f)"
  define g0 where "g0 = group_at rh gid"
  define g1 where "g1 = g0\<lparr> received_frames :=
                     map_insert (block_index (header f)) f (received_frames g0) \<rparr>"
  define g2 where "g2 = (if gi_group_id (rg_info g1) = 0
                then g1\<lparr> rg_info := \<lparr> gi_group_id = gid,
                                       gi_k = (total_blocks (header f) * 2) div 3,
                                       gi_m = total_blocks (header f)
                                              - (total_blocks (header f) * 2) div 3,
                                       gi_block_size = of_nat (length (payload f)) \<rparr> \<rparr>
                else g1)"
  define rh1 where "rh1 = rh\<lparr> received_groups := (received_groups rh)(gid \<mapsto> g2) \<rparr>"
  define r where "r = on_frame_received f rh"
  define g' where "g' = group_at (snd r) gid"
  define d where "d = (case decoders rh (gi_k (rg_info g2), gi_m (rg_info g2)) of
                  Some d \<Rightarrow> d
                | None \<Rightarrow> FECDecoder_new (gi_k (rg_info g2)) (gi_m (rg_info g2))
                            (gi_block_size (rg_info g2)))"
  have r: "r = (if unat (gi_k (rg_info g2)) \<le> length (received_frames g2)
                then try_decode_group gid rh1 else ([], rh1))"
    by (simp add: r_def on_frame_received_def Let_def gid_def g0_def g1_def g2_def rh1_def)
  have l1: "received_groups rh1 gid = Some g2" by (simp add: rh1_def)
  have dec1: "decoders rh1 = decoders rh" by (simp add: rh1_def)
  have frames2: "received_frames g2
                   = map_insert (block_index (header f)) f (received_frames g0)"
    by (simp add: g2_def g1_def)
  have compl2: "is_complete g2 = is_complete g0" by (simp add: g2_def g1_def)
  consider
    (short) "\<not> unat (gi_k (rg_info g2)) \<le> length (received_frames g2)" "r = ([], rh1)"
  | (closed) "unat (gi_k (rg_info g2)) \<le> length (received_frames g2)" "is_complete g2"
      "r = ([], rh1)"
  | (decoded) out where "unat (gi_k (rg_info g2)) \<le> length (received_frames g2)"
      "\<not> is_complete g2"
      "(\<forall>k m d. decoders rh (k, m) = Some d \<longrightarrow> dec_k d = k) \<longrightarrow>
         dec_k d = gi_k (rg_info g2)
       \<and> decode d (map (\<lambda>(block_idx, fr). payload fr) (received_frames g2))
              (map fst (received_frames g2)) = Inr out
       \<and> length out = unat (gi_k (rg_info g2))
       \<and> r = (out, rh1\<lparr> decoders := (decoders rh1)((gi_k (rg_info g2), gi_m (rg_info g2)) \<mapsto> d),
                        received_groups :=
                          (received_groups rh1)(gid \<mapsto> g2\<lparr> is_complete := True \<rparr>) \<rparr>)"
      "rg_info (group_at (snd r) gid) = rg_info g2"
      "received_frames (group_at (snd r) gid) = received_frames g2"
  proof (cases "unat (gi_k (rg_info g2)) \<le> length (received_frames g2)")
    case False
    then show ?thesis using that(1) r by simp
  next
    case True
    show ?thesis
    proof (cases "is_complete g2")
      case c: True
      have "r = ([], rh1)" using True try_decode_group_complete[OF l1 c] by (simp add: r)
      then show ?thesis using that(2) True c by simp
    next
      case c: False
      have rr: "r = try_decode_group gid rh1" using True by (simp add: r)
      have i: "rg_info (group_at (snd r) gid) = rg_info g2"
        using l1 c unfolding rr
        by (simp add: try_decode_group_def group_at_def Let_def split: sum.splits)
      have fr: "received_frames (group_at (snd r) gid) = received_frames g2"
        using l1 c unfolding rr
        by (simp add: try_decode_group_def group_at_def Let_def split: sum.splits)
      have "(\<forall>k m d. decoders rh (k, m) = Some d \<longrightarrow> dec_k d = k) \<longrightarrow>
         (\<exists>out. dec_k d = gi_k (rg_info g2)
       \<and> decode d (map (\<lambda>(block_idx, fr). payload fr) (received_frames g2))
              (map fst (received_frames g2)) = Inr out
       \<and> length out = unat (gi_k (rg_info g2))
       \<and> r = (out, rh1\<lparr> decoders := (decoders rh1)((gi_k (rg_info g2), gi_m (rg_info g2)) \<mapsto> d),
                        received_groups :=
                          (received_groups rh1)(gid \<mapsto> g2\<lparr> is_complete := True \<rparr>) \<rparr>))"
      proof
        assume cache: "\<forall>k m d. decoders rh (k, m) = Some d \<longrightarrow> dec_k d = k"
        then have cache1: "\<forall>k m d. decoders rh1 (k, m) = Some d \<longrightarrow> dec_k d = k"
          by (simp add: dec1)
        from try_decode_group_decodes[OF cache1 l1 True c]
        show "\<exists>out. dec_k d = gi_k (rg_info g2)
       \<and> decode d (map (\<lambda>(block_idx, fr). payload fr) (received_frames g2))
              (map fst (received_frames g2)) = Inr out
       \<and> length out = unat (gi_k (rg_info g2))
       \<and> r = (out, rh1\<lparr> decoders := (decoders rh1)((gi_k (rg_info g2), gi_m (rg_info g2)) \<mapsto> d),
                        received_groups :=
                          (received_groups rh1)(gid \<mapsto> g2\<lparr> is_complete := True \<rparr>) \<rparr>)"
          unfolding rr d_def dec1 by blast
      qed
      then obtain out where
        "(\<forall>k m d. decoders rh (k, m) = Some d \<longrightarrow> dec_k d = k) \<longrightarrow>
         dec_k d = gi_k (rg_info g2)
       \<and> decode d (map (\<lambda>(block_idx, fr). payload fr) (received_frames g2))
              (map fst (received_frames g2)) = Inr out
       \<and> length out = unat (gi_k (rg_info g2))
       \<and> r = (out, rh1\<lparr> decoders := (decoders rh1)((gi_k (rg_info g2), gi_m (rg_info g2)) \<mapsto> d),
                        received_groups :=
                          (received_groups rh1)(gid \<mapsto> g2\<lparr> is_complete := True \<rparr>) \<rparr>)"
        by blast
      then show ?thesis using that(3) True c i fr by blast
    qed
  qed
  note ends = this
  have info': "rg_info g' = rg_info g2" and frames': "received_frames g' = received_frames g2"
  proof -
    show "rg_info g' = rg_info g2"
      using ends by cases (simp_all add: g'_def group_at_def l1)
    show "received_frames g' = received_frames g2"
      using ends by cases (simp_all add: g'_def group_at_def l1)
  qed
  have A: "received_groups rh gid = None \<longrightarrow>
        gi_k (rg_info g') = (total_blocks (header f) * 2) div 3
      \<and> gi_m (rg_info g') = total_blocks (header f) - (total_blocks (header f) * 2) div 3
      \<and> (\<forall>k m. total_blocks (header f) = k + m \<and> unat k + unat m < 2 ^ 31
                 \<and> unat k \<noteq> (2 * (unat k + unat m)) div 3
            \<longrightarrow> gi_k (rg_info g') \<noteq> k)"
  proof
    assume none: "received_groups rh gid = None"
    then have i2: "rg_info g2 = \<lparr> gi_group_id = gid,
                                 gi_k = (total_blocks (header f) * 2) div 3,
                                 gi_m = total_blocks (header f)
                                        - (total_blocks (header f) * 2) div 3,
                                 gi_block_size = of_nat (length (payload f)) \<rparr>"
      by (simp add: g2_def g1_def g0_def group_at_def ReceivedGroup_default_def
          FECGroupInfo_default_def)
    have wrong: "gi_k (rg_info g') \<noteq> k"
      if t: "total_blocks (header f) = k + m" and small: "unat k + unat m < 2 ^ 31"
        and ne: "unat k \<noteq> (2 * (unat k + unat m)) div 3" for k m
    proof -
      have s32: "unat k + unat m < 2 ^ LENGTH(32)" using small by simp
      have ut: "unat (k + m) = unat k + unat m"
        using s32 by (simp only: unat_add_lem)
      have "unat ((total_blocks (header f) * 2) div 3) = (2 * (unat k + unat m)) div 3"
        using inferred_k_unat[of "k + m"] small ut t by simp
      then show ?thesis using ne by (auto simp add: info' i2)
    qed
    show "gi_k (rg_info g') = (total_blocks (header f) * 2) div 3
      \<and> gi_m (rg_info g') = total_blocks (header f) - (total_blocks (header f) * 2) div 3
      \<and> (\<forall>k m. total_blocks (header f) = k + m \<and> unat k + unat m < 2 ^ 31
                 \<and> unat k \<noteq> (2 * (unat k + unat m)) div 3
            \<longrightarrow> gi_k (rg_info g') \<noteq> k)"
      using wrong by (simp add: info' i2)
  qed
  have B: "gi_group_id (rg_info g0) \<noteq> 0 \<longrightarrow> rg_info g' = rg_info g0"
    by (simp add: info' g2_def g1_def)
  have C: "fst ` set (received_frames g')
             = insert (block_index (header f)) (fst ` set (received_frames g0))"
    by (simp add: frames' frames2 map_insert_keys)
  have D: "hook_sound rh \<longrightarrow>
              hook_sound (snd r)
            \<and> (card (fst ` set (received_frames g')) < unat (gi_k (rg_info g'))
                 \<longrightarrow> fst r = [] \<and> (is_complete g' \<longleftrightarrow> is_complete g0))
            \<and> (unat (gi_k (rg_info g')) \<le> card (fst ` set (received_frames g'))
                 \<and> is_complete g0 \<longrightarrow> fst r = [] \<and> is_complete g')
            \<and> (unat (gi_k (rg_info g')) \<le> card (fst ` set (received_frames g'))
                 \<and> \<not> is_complete g0 \<longrightarrow>
                  is_complete g'
                \<and> decode d (map (\<lambda>(block_idx, fr). payload fr) (received_frames g'))
                     (map fst (received_frames g')) = Inr (fst r)
                \<and> length (fst r) = unat (gi_k (rg_info g')))"
  proof
    assume ok: "hook_sound rh"
    then have cache: "\<forall>k m d. decoders rh (k, m) = Some d \<longrightarrow> dec_k d = k"
      and asc: "\<forall>gid g. received_groups rh gid = Some g
                  \<longrightarrow> sorted_wrt (<) (map fst (received_frames g))"
      by (simp_all add: hook_sound_def)
    have asc0: "sorted_wrt (<) (map fst (received_frames g0))"
      using asc by (auto simp add: g0_def group_at_def ReceivedGroup_default_def
          split: option.splits)
    have asc2: "sorted_wrt (<) (map fst (received_frames g2))"
      unfolding frames2 using asc0 by (rule map_insert_sorted)
    have n2: "card (fst ` set (received_frames g2)) = length (received_frames g2)"
      using asc2 by (rule ascending_card)
    then have n: "card (fst ` set (received_frames g')) = length (received_frames g2)"
      by (simp only: frames')
    have asc1: "\<forall>gid' g. received_groups rh1 gid' = Some g
                  \<longrightarrow> sorted_wrt (<) (map fst (received_frames g))"
      using asc asc2 by (simp add: rh1_def)
    from ends show "hook_sound (snd r)
            \<and> (card (fst ` set (received_frames g')) < unat (gi_k (rg_info g'))
                 \<longrightarrow> fst r = [] \<and> (is_complete g' \<longleftrightarrow> is_complete g0))
            \<and> (unat (gi_k (rg_info g')) \<le> card (fst ` set (received_frames g'))
                 \<and> is_complete g0 \<longrightarrow> fst r = [] \<and> is_complete g')
            \<and> (unat (gi_k (rg_info g')) \<le> card (fst ` set (received_frames g'))
                 \<and> \<not> is_complete g0 \<longrightarrow>
                  is_complete g'
                \<and> decode d (map (\<lambda>(block_idx, fr). payload fr) (received_frames g'))
                     (map fst (received_frames g')) = Inr (fst r)
                \<and> length (fst r) = unat (gi_k (rg_info g')))"
    proof cases
      case short
      have "hook_sound (snd r)"
        using asc1 cache by (simp add: short(2) hook_sound_def dec1)
      moreover have "is_complete g' \<longleftrightarrow> is_complete g0"
        by (simp add: g'_def short(2) group_at_def l1 compl2)
      ultimately show ?thesis using short(1) by (simp add: n info' short(2))
    next
      case closed
      have "hook_sound (snd r)"
        using asc1 cache by (simp add: closed(3) hook_sound_def dec1)
      moreover have "is_complete g'"
        using closed(2) by (simp add: g'_def closed(3) group_at_def l1)
      ultimately show ?thesis using closed(1) closed(2) by (simp add: n info' closed(3) compl2)
    next
      case (decoded out)
      from decoded(3) cache have
        dk: "dec_k d = gi_k (rg_info g2)" and
        dec: "decode d (map (\<lambda>(block_idx, fr). payload fr) (received_frames g2))
                (map fst (received_frames g2)) = Inr out" and
        len: "length out = unat (gi_k (rg_info g2))" and
        rr: "r = (out, rh1\<lparr> decoders := (decoders rh1)((gi_k (rg_info g2), gi_m (rg_info g2)) \<mapsto> d),
                        received_groups :=
                          (received_groups rh1)(gid \<mapsto> g2\<lparr> is_complete := True \<rparr>) \<rparr>)"
        by simp_all
      have "hook_sound (snd r)"
        using asc1 cache dk asc2 by (simp add: rr hook_sound_def dec1)
      moreover have "is_complete g'" by (simp add: g'_def rr group_at_def)
      moreover have "fst r = out" by (simp add: rr)
      ultimately show ?thesis
        using decoded(1) decoded(2) dec len by (simp add: n2 info' frames' compl2)
    qed
  qed
  have d': "d = (case decoders rh (gi_k (rg_info g'), gi_m (rg_info g')) of
                  Some d \<Rightarrow> d
                | None \<Rightarrow> FECDecoder_new (gi_k (rg_info g')) (gi_m (rg_info g'))
                            (gi_block_size (rg_info g')))"
    unfolding d_def info' by (rule refl)
  from A B C D hook_sound_new show ?thesis
    unfolding Let_def d' g'_def r_def g0_def gid_def by blast
qed


lemmas receive_defs =
  on_frame_received_def try_decode_group_def group_at_def PacketReceiveHook_new_def
  ReceivedGroup_default_def FECGroupInfo_default_def frame_of_eleven_def
  wrap_source_frame_def FECDecoder_new_def decode_def Let_def FEC_SOURCE_FRAME_def

text \<open>
  A group sent with \<open>k = 10\<close> and \<open>m = 1\<close>: the receiver infers \<open>k = 7\<close>, and the delivery
  of the seventh source frame returns seven blocks and closes the group, three source
  blocks short.
\<close>

lemma seven_of_ten_decodes:
  "fst (receive_each (map frame_of_eleven [0, 1, 2, 3, 4, 5, 6]) PacketReceiveHook_new)
     = [[], [], [], [], [], [],
        [[0, 0], [1, 0], [2, 0], [3, 0], [4, 0], [5, 0], [6, 0]]]"
  by (simp add: receive_defs)

theorem receiver_infers_threshold_witness:
  "gi_k (rg_info (group_at (snd (on_frame_received (frame_of_eleven 0) PacketReceiveHook_new)) 1))
     = 7
   \<and> gi_k (rg_info (group_at (snd (on_frame_received (frame_of_eleven 0) PacketReceiveHook_new)) 1))
       \<noteq> 10
   \<and> gi_m (rg_info (group_at (snd (on_frame_received (frame_of_eleven 0) PacketReceiveHook_new)) 1))
       = 4
   \<and> fst (on_frame_received (frame_of_eleven 0) PacketReceiveHook_new) = []
   \<and> \<not> is_complete (group_at (snd (on_frame_received (frame_of_eleven 0) PacketReceiveHook_new)) 1)
   \<and> gi_k (rg_info (group_at (snd (on_frame_received (frame_of_eleven 6) hook_after_six)) 1)) = 7
   \<and> is_complete (group_at (snd (on_frame_received (frame_of_eleven 6) hook_after_six)) 1)
   \<and> fst (on_frame_received (frame_of_eleven 6) hook_after_six)
       = [[0, 0], [1, 0], [2, 0], [3, 0], [4, 0], [5, 0], [6, 0]]
   \<and> fst (on_frame_received (frame_of_eleven 7)
            (snd (on_frame_received (frame_of_eleven 6) hook_after_six))) = []"
proof -
  let ?f0 = "frame_of_eleven 0"
  let ?n = PacketReceiveHook_new
  let ?g0 = "group_at (snd (on_frame_received ?f0 ?n)) 1"
  have h0: "group_id (header ?f0) = 1" "total_blocks (header ?f0) = 11"
    "block_index (header ?f0) = 0"
    by (simp_all add: frame_of_eleven_def wrap_source_frame_def)
  have n0: "received_groups ?n 1 = None"
    "is_complete (group_at ?n 1) = False" "received_frames (group_at ?n 1) = []"
    by (simp_all add: PacketReceiveHook_new_def group_at_def ReceivedGroup_default_def)
  note t0 = receiver_infers_threshold [of ?f0 ?n, unfolded h0 Let_def]
  have s0: "hook_sound ?n" using t0 by (rule conjunct1)
  have k0: "gi_k (rg_info ?g0) = 7" and m0: "gi_m (rg_info ?g0) = 4"
    using t0 n0(1) by simp_all
  have w0: "gi_k (rg_info ?g0) \<noteq> 10"
  proof -
    have "(11::u32) = 10 + 1 \<and> unat (10::u32) + unat (1::u32) < 2 ^ 31
          \<and> unat (10::u32) \<noteq> (2 * (unat (10::u32) + unat (1::u32))) div 3"
      by simp
    then show ?thesis using t0 n0(1) by blast
  qed
  have fr0: "fst ` set (received_frames ?g0) = {0}"
    using t0 n0(3) by simp
  have few0: "card (fst ` set (received_frames ?g0)) < unat (gi_k (rg_info ?g0))"
    by (simp add: fr0 k0)
  have e0: "fst (on_frame_received ?f0 ?n) = []" and c0: "\<not> is_complete ?g0"
    using t0 s0 few0 n0(2) by simp_all
  let ?f6 = "frame_of_eleven 6"
  let ?h = hook_after_six
  let ?r6 = "on_frame_received ?f6 ?h"
  let ?g6 = "group_at (snd ?r6) 1"
  have h6: "group_id (header ?f6) = 1" "block_index (header ?f6) = 6"
    by (simp_all add: frame_of_eleven_def wrap_source_frame_def)
  have s6: "gi_group_id (rg_info (group_at ?h 1)) = 1"
    "rg_info (group_at ?h 1) = \<lparr> gi_group_id = 1, gi_k = 7, gi_m = 4, gi_block_size = 2 \<rparr>"
    "is_complete (group_at ?h 1) = False"
    "map fst (received_frames (group_at ?h 1)) = [0, 1, 2, 3, 4, 5]"
    "decoders ?h = Map.empty"
    by (simp_all add: hook_after_six_def receive_defs)
  have sound6: "hook_sound ?h"
    by (simp add: hook_sound_def hook_after_six_def receive_defs)
  note t6 = receiver_infers_threshold [of ?f6 ?h, unfolded h6 Let_def]
  have i6: "rg_info ?g6 = rg_info (group_at ?h 1)"
    using t6 s6(1) by simp
  have k6: "gi_k (rg_info ?g6) = 7" by (simp add: i6 s6(2))
  have "fst ` set (received_frames ?g6) = insert 6 (set (map fst (received_frames (group_at ?h 1))))"
    using t6 by simp
  then have fr6: "fst ` set (received_frames ?g6) = {0, 1, 2, 3, 4, 5, 6}"
    unfolding s6(4) by auto
  have many6: "unat (gi_k (rg_info ?g6)) \<le> card (fst ` set (received_frames ?g6))"
    by (simp add: fr6 k6)
  have open6: "\<not> is_complete (group_at ?h 1)" by (simp add: s6(3))
  from t6 sound6 many6 open6 have
    sound7: "hook_sound (snd ?r6)" and
    c6: "is_complete ?g6" and
    d6: "decode (case decoders ?h (gi_k (rg_info ?g6), gi_m (rg_info ?g6)) of
                   None \<Rightarrow> FECDecoder_new (gi_k (rg_info ?g6)) (gi_m (rg_info ?g6))
                            (gi_block_size (rg_info ?g6))
                 | Some d \<Rightarrow> d)
           (map (\<lambda>(block_idx, fr). payload fr) (received_frames ?g6))
           (map fst (received_frames ?g6)) = Inr (fst ?r6)"
    by simp_all
  have frames6: "map (\<lambda>(block_idx, fr). payload fr) (received_frames ?g6)
                   = [[0, 0], [1, 0], [2, 0], [3, 0], [4, 0], [5, 0], [6, 0]]"
    "map fst (received_frames ?g6) = [0, 1, 2, 3, 4, 5, 6]"
    by (simp_all add: hook_after_six_def receive_defs)
  have "Inr (fst ?r6) = (Inr [[0, 0], [1, 0], [2, 0], [3, 0], [4, 0], [5, 0], [6, 0]]
                          :: error + u8 list list)"
    unfolding d6 [symmetric] frames6 i6 s6(2) s6(5)
    by (simp add: decode_def FECDecoder_new_def Let_def)
  then have out6: "fst ?r6 = [[0, 0], [1, 0], [2, 0], [3, 0], [4, 0], [5, 0], [6, 0]]"
    by simp
  let ?f7 = "frame_of_eleven 7"
  let ?r7 = "on_frame_received ?f7 (snd ?r6)"
  have h7: "group_id (header ?f7) = 1" "block_index (header ?f7) = 7"
    by (simp_all add: frame_of_eleven_def wrap_source_frame_def)
  note t7 = receiver_infers_threshold [of ?f7 "snd ?r6", unfolded h7 Let_def]
  have "gi_group_id (rg_info ?g6) \<noteq> 0" by (simp add: i6 s6(2))
  then have i7: "rg_info (group_at (snd ?r7) 1) = rg_info ?g6" using t7 by simp
  have fr7: "fst ` set (received_frames (group_at (snd ?r7) 1)) = {0, 1, 2, 3, 4, 5, 6, 7}"
    using t7 unfolding fr6 by auto
  have many7: "unat (gi_k (rg_info (group_at (snd ?r7) 1)))
                 \<le> card (fst ` set (received_frames (group_at (snd ?r7) 1)))"
    by (simp add: fr7 i7 k6)
  have e7: "fst ?r7 = []" using t7 sound7 many7 c6 by simp
  from k0 w0 m0 e0 c0 k6 c6 out6 e7 show ?thesis by simp
qed

section \<open>Scheduler weights: rounding error of a sum and of the normalisation\<close>

lemma eps_pos [simp]: "0 < eps" "0 \<le> eps" "eps < 1" "eps \<le> 1"
  by (simp_all add: eps_def)













section \<open>Scheduler weights: one update\<close>










lemma map_insert_not_nil [simp]: "map_insert k v xs \<noteq> []"
  by (induction k v xs rule: map_insert.induct) auto
















section \<open>Scheduler weights: the scenario of a third path that joins\<close>




































lemma id_near [simp]: "ps_path_id (near_path i) = i"
  by (simp add: near_path_def)

lemma id_far [simp]: "ps_path_id far_path = 1"
  by (simp add: far_path_def)





















section \<open>Scheduler weights: the distribution (C7)\<close>




end
